theory Spec2Isabelle
  imports Main "HOL-Library.Word"
begin

section \<open>The USB audio HAL (modules/usbaudio/audio\_hw.c)\<close>

text \<open>
  A shallow embedding of \<^verbatim>\<open>modules/usbaudio/audio_hw.c\<close>. Every C function that a
  property below is about is a HOL function of the same name, statement by statement.

  Conventions.
  \<^item> Memory is a function from byte addresses to bytes; a pointer is an address and
    \<^verbatim>\<open>NULL\<close> is address 0. Pointer arithmetic is arithmetic on addresses, scaled
    by the size of the pointee as in C. A function that reads or writes memory takes the
    predicate \<open>ok\<close> of the addresses it may access (the bytes of the objects it was
    handed); an access anywhere else has no defined behaviour.
  \<^item> Integers have the widths of C. An \<^verbatim>\<open>int\<close> and an \<^verbatim>\<open>unsigned int\<close> have 32
    bits. The width of \<^verbatim>\<open>size_t\<close> and \<^verbatim>\<open>ssize_t\<close> depends on the target and is the
    parameter \<open>W\<close> (32 or 64 on the targets the HAL is built for). Unsigned arithmetic
    is arithmetic modulo \<open>2 ^ 32\<close> or \<open>2 ^ W\<close>; a conversion to a signed type keeps
    the low-order bits (two's complement); signed arithmetic that leaves the range of
    \<^verbatim>\<open>int\<close> has no defined behaviour.
  \<^item> A function whose behaviour C leaves undefined at an input (signed overflow, an
    access outside \<open>ok\<close>, a division by zero) has the result \<open>None\<close> there: the call
    is not known to return.
  \<^item> What the HAL calls but does not define (tinyalsa's \<^verbatim>\<open>pcm_*\<close> functions, the
    allocator, \<^verbatim>\<open>audio_stream_frame_size\<close>) is a field of the record \<open>platform\<close>,
    so every theorem holds whatever these functions return; each call the HAL makes to
    the transport is appended to a trace of events.
\<close>

subsection \<open>Integers of C\<close>

definition INT_MAX :: int where
  "INT_MAX = 2147483647"

definition int_ok :: "int \<Rightarrow> bool" where
  "int_ok x \<longleftrightarrow> - INT_MAX - 1 \<le> x \<and> x \<le> INT_MAX"

text \<open>Conversion of an integer value to \<^verbatim>\<open>int\<close> and to \<^verbatim>\<open>unsigned int\<close>.\<close>

definition to_int :: "int \<Rightarrow> int" where
  "to_int x = (x + 2147483648) mod 4294967296 - 2147483648"

definition to_unsigned_int :: "int \<Rightarrow> nat" where
  "to_unsigned_int x = nat (x mod 4294967296)"

text \<open>Conversion to \<^verbatim>\<open>size_t\<close> and to \<^verbatim>\<open>ssize_t\<close>, of \<open>W\<close> bits.\<close>

definition to_size_t :: "nat \<Rightarrow> int \<Rightarrow> nat" where
  "to_size_t W x = nat (x mod 2 ^ W)"

definition to_ssize_t :: "nat \<Rightarrow> int \<Rightarrow> int" where
  "to_ssize_t W x = (x + 2 ^ (W - 1)) mod 2 ^ W - 2 ^ (W - 1)"

text \<open>
  Arithmetic on \<^verbatim>\<open>int\<close>: \<open>None\<close> when the result is not a value of \<^verbatim>\<open>int\<close>.
  Division truncates towards zero; the HAL divides an \<^verbatim>\<open>int\<close> by the constant 2
  only, which neither divides by zero nor leaves the range.
\<close>

definition int_add :: "int \<Rightarrow> int \<Rightarrow> int option" where
  "int_add a b = (if int_ok (a + b) then Some (a + b) else None)"

definition int_mul :: "int \<Rightarrow> int \<Rightarrow> int option" where
  "int_mul a b = (if int_ok (a * b) then Some (a * b) else None)"

definition int_div :: "int \<Rightarrow> int \<Rightarrow> int" where
  "int_div a b = sgn a * sgn b * (\<bar>a\<bar> div \<bar>b\<bar>)"

subsection \<open>Memory\<close>

type_synonym addr = int
type_synonym byte = "8 word"
type_synonym memory = "addr \<Rightarrow> byte"

text \<open>
  An \<^verbatim>\<open>unsigned short\<close> is a 16-bit word held in two bytes, the low-order byte at
  the lower address (the byte order of the targets the HAL is built for; the HAL only
  copies such values and stores the constant 0, which no byte order changes).
\<close>

type_synonym ushort = "16 word"

definition load16 :: "memory \<Rightarrow> addr \<Rightarrow> ushort" where
  "load16 m p = word_cat (m (p + 1)) (m p)"

definition store16 :: "memory \<Rightarrow> addr \<Rightarrow> ushort \<Rightarrow> memory" where
  "store16 m p v = m(p := ucast v, p + 1 := ucast (drop_bit 8 v))"

text \<open>The two bytes of an \<^verbatim>\<open>unsigned short\<close> at \<open>p\<close> may be accessed.\<close>

definition ok16 :: "(addr \<Rightarrow> bool) \<Rightarrow> addr \<Rightarrow> bool" where
  "ok16 ok p \<longleftrightarrow> ok p \<and> ok (p + 1)"

subsection \<open>Data conversions\<close>

text \<open>
  \<^verbatim>\<open>convert_16_to_24_3\<close>: the loop body is
  \<^verbatim>\<open>*dst_ptr-- = *src_ptr--; *dst_ptr-- = *src_ptr--; *dst_ptr-- = 0;\<close>
  on \<^verbatim>\<open>unsigned char\<close> pointers. The counter \<^verbatim>\<open>src_smpl_index\<close> is an \<^verbatim>\<open>int\<close>;
  the test \<^verbatim>\<open>src_smpl_index < num_in_samples\<close> compares it with a \<^verbatim>\<open>size_t\<close>, so it
  is converted to \<^verbatim>\<open>size_t\<close> first.
\<close>

function convert_16_to_24_3_loop ::
    "nat \<Rightarrow> (addr \<Rightarrow> bool) \<Rightarrow> int \<Rightarrow> nat \<Rightarrow> addr \<Rightarrow> addr \<Rightarrow> memory \<Rightarrow> memory option" where
  "convert_16_to_24_3_loop W ok src_smpl_index num_in_samples src_ptr dst_ptr m =
     (if to_size_t W src_smpl_index < num_in_samples then
        if ok src_ptr \<and> ok dst_ptr \<and> ok (src_ptr - 1) \<and> ok (dst_ptr - 1) \<and> ok (dst_ptr - 2) then
          (let m1 = m(dst_ptr := m src_ptr);
               m2 = m1(dst_ptr - 1 := m1 (src_ptr - 1));
               m3 = m2(dst_ptr - 2 := 0)
           in case int_add src_smpl_index 1 of
                None \<Rightarrow> None
              | Some src_smpl_index' \<Rightarrow>
                  convert_16_to_24_3_loop W ok src_smpl_index' num_in_samples
                    (src_ptr - 2) (dst_ptr - 3) m3)
        else None
      else Some m)"
  by pat_completeness auto
termination
  by (relation "measure (\<lambda>(W, ok, i, n, s, d, m). nat (INT_MAX - i))")
     (auto simp add: int_add_def int_ok_def split: if_splits)

declare convert_16_to_24_3_loop.simps [simp del]

definition convert_16_to_24_3 ::
    "nat \<Rightarrow> (addr \<Rightarrow> bool) \<Rightarrow> memory \<Rightarrow> addr \<Rightarrow> nat \<Rightarrow> addr \<Rightarrow> (memory \<times> nat) option" where
  "convert_16_to_24_3 W ok m in_buff num_in_samples out_buff =
     (let in_buff_size_in_bytes = to_int (int (num_in_samples * 2 mod 2 ^ W)) in
      case int_mul 3 in_buff_size_in_bytes of
        None \<Rightarrow> None
      | Some product \<Rightarrow>
          (let out_buff_size_in_bytes = int_div product 2;
               dst_ptr = out_buff + out_buff_size_in_bytes - 1;
               src_ptr = in_buff + in_buff_size_in_bytes - 1
           in case convert_16_to_24_3_loop W ok 0 num_in_samples src_ptr dst_ptr m of
                None \<Rightarrow> None
              | Some m' \<Rightarrow> Some (m', to_size_t W out_buff_size_in_bytes)))"

text \<open>
  \<^verbatim>\<open>convert_2chan16_to_4chan16\<close>: the pointers are \<^verbatim>\<open>unsigned short *\<close>, so one
  step of a pointer is two bytes; the loop counter advances by 2 per frame.
\<close>

function convert_2chan16_to_4chan16_loop ::
    "nat \<Rightarrow> (addr \<Rightarrow> bool) \<Rightarrow> int \<Rightarrow> nat \<Rightarrow> addr \<Rightarrow> addr \<Rightarrow> memory \<Rightarrow> memory option" where
  "convert_2chan16_to_4chan16_loop W ok src_index num_in_samples src_ptr dst_ptr m =
     (if to_size_t W src_index < num_in_samples then
        if ok16 ok dst_ptr \<and> ok16 ok (dst_ptr - 2) \<and> ok16 ok src_ptr \<and> ok16 ok (dst_ptr - 4)
           \<and> ok16 ok (src_ptr - 2) \<and> ok16 ok (dst_ptr - 6) then
          (let m1 = store16 m dst_ptr 0;
               m2 = store16 m1 (dst_ptr - 2) 0;
               m3 = store16 m2 (dst_ptr - 4) (load16 m2 src_ptr);
               m4 = store16 m3 (dst_ptr - 6) (load16 m3 (src_ptr - 2))
           in case int_add src_index 2 of
                None \<Rightarrow> None
              | Some src_index' \<Rightarrow>
                  convert_2chan16_to_4chan16_loop W ok src_index' num_in_samples
                    (src_ptr - 4) (dst_ptr - 8) m4)
        else None
      else Some m)"
  by pat_completeness auto
termination
  by (relation "measure (\<lambda>(W, ok, i, n, s, d, m). nat (INT_MAX - i))")
     (auto simp add: int_add_def int_ok_def split: if_splits)

declare convert_2chan16_to_4chan16_loop.simps [simp del]

definition convert_2chan16_to_4chan16 ::
    "nat \<Rightarrow> (addr \<Rightarrow> bool) \<Rightarrow> memory \<Rightarrow> addr \<Rightarrow> nat \<Rightarrow> addr \<Rightarrow> (memory \<times> nat) option" where
  "convert_2chan16_to_4chan16 W ok m in_buff num_in_samples out_buff =
     (let out_buff_size = to_int (int (num_in_samples * 2 mod 2 ^ W));
          dst_ptr = out_buff + 2 * (out_buff_size - 1);
          src_ptr = in_buff + 2 * (int num_in_samples - 1)
      in case convert_2chan16_to_4chan16_loop W ok 0 num_in_samples src_ptr dst_ptr m of
           None \<Rightarrow> None
         | Some m' \<Rightarrow>
             (case int_mul out_buff_size 2 of
                None \<Rightarrow> None
              | Some r \<Rightarrow> Some (m', to_size_t W r)))"

subsection \<open>Types of the headers the HAL is compiled against\<close>

text \<open>
  The enumerators are the ones \<^verbatim>\<open>audio_hw.c\<close> names; the \<^verbatim>\<open>switch\<close> statements of the
  source use them as labels of one \<^verbatim>\<open>switch\<close>, so they are pairwise distinct values.
\<close>

datatype pcm_format =
  PCM_FORMAT_S16_LE | PCM_FORMAT_S32_LE | PCM_FORMAT_S8 | PCM_FORMAT_S24_LE | PCM_FORMAT_S24_3LE

datatype audio_format =
  AUDIO_FORMAT_PCM_16_BIT | AUDIO_FORMAT_PCM_8_BIT | AUDIO_FORMAT_PCM_32_BIT
  | AUDIO_FORMAT_PCM_8_24_BIT

datatype audio_channel_mask =
  AUDIO_CHANNEL_OUT_STEREO | AUDIO_CHANNEL_IN_STEREO | AUDIO_CHANNEL_IN_MONO
  | AUDIO_CHANNEL_BITS nat

datatype pcm_dir = PCM_OUT | PCM_IN

datatype pcm_param =
  PCM_PARAM_SAMPLE_BITS | PCM_PARAM_FRAME_BITS | PCM_PARAM_CHANNELS | PCM_PARAM_RATE
  | PCM_PARAM_PERIOD_TIME | PCM_PARAM_PERIOD_SIZE | PCM_PARAM_PERIOD_BYTES | PCM_PARAM_PERIODS
  | PCM_PARAM_BUFFER_TIME | PCM_PARAM_BUFFER_SIZE | PCM_PARAM_BUFFER_BYTES | PCM_PARAM_TICK_TIME

text \<open>
  A C function of the HAL returns \<^verbatim>\<open>0\<close> or \<^verbatim>\<open>-E\<close> for an \<^verbatim>\<open>errno\<close> value
  \<^verbatim>\<open>E\<close>: \<open>OK\<close> is the return value 0 and \<open>Error E\<close> is \<^verbatim>\<open>-E\<close>.
\<close>

datatype errno = EINVAL | ENOMEM | ENOSYS

datatype status = OK | Error errno

record pcm_config =
  channels :: nat
  rate :: nat
  period_size :: nat
  period_count :: nat
  format :: pcm_format
  start_threshold :: nat
  stop_threshold :: nat

record audio_config =
  sample_rate :: nat
  channel_mask :: audio_channel_mask
  format :: audio_format

text \<open>
  \<^verbatim>\<open>struct pcm_params *\<close>: the capability set of a device, read only through
  \<^verbatim>\<open>pcm_params_get_min\<close> and \<^verbatim>\<open>pcm_params_get_max\<close>; it is the pair (min, max) of
  every parameter.
\<close>

type_synonym pcm_params = "pcm_param \<Rightarrow> nat \<times> nat"

definition pcm_params_get_min :: "pcm_params \<Rightarrow> pcm_param \<Rightarrow> nat" where
  "pcm_params_get_min alsa_hw_params param = fst (alsa_hw_params param)"

definition pcm_params_get_max :: "pcm_params \<Rightarrow> pcm_param \<Rightarrow> nat" where
  "pcm_params_get_max alsa_hw_params param = snd (alsa_hw_params param)"

text \<open>\<^verbatim>\<open>struct pcm *\<close>: \<open>None\<close> is \<^verbatim>\<open>NULL\<close>, \<open>Some p\<close> a handle of the transport.\<close>

type_synonym pcm_handle = "nat option"

text \<open>
  The calls that leave the HAL, in the order they are made. \<^verbatim>\<open>pcm_write\<close> and
  \<^verbatim>\<open>pcm_read\<close> are recorded with the handle, the buffer address and the byte count they
  are passed; the count is the parameter \<^verbatim>\<open>unsigned int count\<close> of tinyalsa's
  prototypes.
\<close>

datatype event =
  Pcm_open int int pcm_dir pcm_config
  | Pcm_close pcm_handle
  | Pcm_write pcm_handle addr nat
  | Pcm_read pcm_handle addr nat
  | Realloc addr nat
  | Usleep nat

text \<open>
  What the HAL calls and does not define.
  \<^item> \<open>size_t_bits\<close>: the width \<open>W\<close> of \<^verbatim>\<open>size_t\<close> and \<^verbatim>\<open>ssize_t\<close> on the
    target.
  \<^item> \<open>pcm_formats_after_S16_LE\<close>: the enumerators of \<^verbatim>\<open>enum pcm_format\<close> that follow
    \<^verbatim>\<open>PCM_FORMAT_S16_LE\<close> and precede \<^verbatim>\<open>PCM_FORMAT_MAX\<close>, in increasing order (the
    values \<^verbatim>\<open>format++\<close> runs through).
  \<^item> \<open>pcm_read\<close> takes the handle, the buffer and the count and returns tinyalsa's
    error code and the memory after the call.
  \<^item> \<open>realloc\<close> returns the address of the block (0 when it fails).
  \<^item> \<open>calloc_succeeds\<close>: whether \<^verbatim>\<open>calloc\<close> returns a block for a new stream.
  \<^item> \<open>audio_stream_frame_size\<close>: the inline function of \<^verbatim>\<open>hardware/audio.h\<close>, a
    function of what the stream's \<^verbatim>\<open>get_channels\<close> and \<^verbatim>\<open>get_format\<close> return.
\<close>

record platform =
  size_t_bits :: nat
  pcm_params_get :: "int \<Rightarrow> int \<Rightarrow> pcm_dir \<Rightarrow> pcm_params option"
  pcm_format_to_bits :: "pcm_format \<Rightarrow> nat"
  pcm_formats_after_S16_LE :: "pcm_format list"
  pcm_open :: "int \<Rightarrow> int \<Rightarrow> pcm_dir \<Rightarrow> pcm_config \<Rightarrow> pcm_handle"
  pcm_is_ready :: "nat \<Rightarrow> bool"
  pcm_read :: "pcm_handle \<Rightarrow> addr \<Rightarrow> nat \<Rightarrow> memory \<Rightarrow> int \<times> memory"
  realloc :: "addr \<Rightarrow> nat \<Rightarrow> addr"
  calloc_succeeds :: bool
  audio_stream_frame_size :: "audio_channel_mask \<Rightarrow> audio_format \<Rightarrow> nat"
  audio_channel_out_mask_from_count :: "nat \<Rightarrow> audio_channel_mask"

text \<open>
  \<^verbatim>\<open>str_parms\<close>: the key/value pairs of a parameter string after
  \<^verbatim>\<open>str_parms_create_str\<close>; a key is mapped to what \<^verbatim>\<open>atoi\<close> reads from its value.
\<close>

type_synonym str_parms = "string \<Rightarrow> int option"

text \<open>Unsigned division in C: a zero divisor stops the process.\<close>

definition c_udiv :: "nat \<Rightarrow> nat \<Rightarrow> nat option" where
  "c_udiv a b = (if b = 0 then None else Some (a div b))"

subsection \<open>State\<close>

record audio_device =
  out_card :: int
  out_device :: int
  in_card :: int
  in_device :: int
  standby :: bool

record stream_out =
  pcm :: pcm_handle
  standby :: bool
  conversion_buffer :: addr
  conversion_buffer_size :: nat

text \<open>
  The state outside the stream objects: the device the streams point to (\<^verbatim>\<open>out->dev\<close>,
  \<^verbatim>\<open>in->dev\<close>), the two static variables of the output configuration cache, the memory
  and the trace of outgoing calls. The mutexes are not modelled: every function below
  is one uninterrupted call.
\<close>

record hal =
  adev :: audio_device
  cached_output_hardware_config :: pcm_config
  output_hardware_config_is_cached :: bool
  mem :: memory
  trace :: "event list"

definition default_alsa_out_config :: pcm_config where
  "default_alsa_out_config =
     \<lparr> channels = 2, rate = 44100, period_size = 1024, period_count = 4,
       pcm_config.format = PCM_FORMAT_S16_LE, start_threshold = 0, stop_threshold = 0 \<rparr>"

definition default_alsa_in_config :: pcm_config where
  "default_alsa_in_config =
     \<lparr> channels = 2, rate = 44100, period_size = 1024, period_count = 4,
       pcm_config.format = PCM_FORMAT_S16_LE, start_threshold = 1,
       stop_threshold = 1024 * 4 \<rparr>"

subsection \<open>Utility\<close>

fun alsa_to_fw_format_id :: "pcm_format \<Rightarrow> audio_format" where
  "alsa_to_fw_format_id PCM_FORMAT_S8 = AUDIO_FORMAT_PCM_8_BIT"
| "alsa_to_fw_format_id PCM_FORMAT_S24_3LE = AUDIO_FORMAT_PCM_8_24_BIT"
| "alsa_to_fw_format_id PCM_FORMAT_S32_LE = AUDIO_FORMAT_PCM_32_BIT"
| "alsa_to_fw_format_id PCM_FORMAT_S24_LE = AUDIO_FORMAT_PCM_32_BIT"
| "alsa_to_fw_format_id PCM_FORMAT_S16_LE = AUDIO_FORMAT_PCM_16_BIT"

subsection \<open>ALSA utilities\<close>

text \<open>
  \<^verbatim>\<open>bits_to_alsa_format\<close>: the loop
  \<^verbatim>\<open>for (format = PCM_FORMAT_S16_LE; format < PCM_FORMAT_MAX; format++)\<close>
  over the formats still to be tried.
\<close>

fun bits_to_alsa_format_loop :: "platform \<Rightarrow> pcm_format list \<Rightarrow> nat \<Rightarrow> pcm_format \<Rightarrow> pcm_format" where
  "bits_to_alsa_format_loop pf [] bits_per_sample default_format = default_format"
| "bits_to_alsa_format_loop pf (fmt # fmts) bits_per_sample default_format =
     (if pcm_format_to_bits pf fmt = bits_per_sample then fmt
      else bits_to_alsa_format_loop pf fmts bits_per_sample default_format)"

definition bits_to_alsa_format :: "platform \<Rightarrow> nat \<Rightarrow> pcm_format \<Rightarrow> pcm_format" where
  "bits_to_alsa_format pf bits_per_sample default_format =
     bits_to_alsa_format_loop pf (PCM_FORMAT_S16_LE # pcm_formats_after_S16_LE pf)
       bits_per_sample default_format"

text \<open>
  \<^verbatim>\<open>read_alsa_device_config\<close> returns its status and the record \<^verbatim>\<open>config\<close> points to
  as the call leaves it (\<open>card_no\<close> is the parameter \<^verbatim>\<open>card\<close>).
\<close>

definition read_alsa_device_config ::
    "platform \<Rightarrow> int \<Rightarrow> int \<Rightarrow> pcm_dir \<Rightarrow> pcm_config \<Rightarrow> status \<times> pcm_config" where
  "read_alsa_device_config pf card_no device io_type config =
     (if card_no < 0 \<or> device < 0 then (Error EINVAL, config)
      else case pcm_params_get pf card_no device io_type of
        None \<Rightarrow> (Error EINVAL, config)
      | Some alsa_hw_params \<Rightarrow>
          (let config1 = config\<lparr> channels := pcm_params_get_min alsa_hw_params PCM_PARAM_CHANNELS \<rparr>;
               config2 = config1\<lparr> rate := pcm_params_get_min alsa_hw_params PCM_PARAM_RATE \<rparr>;
               config3 = config2\<lparr> period_size := pcm_params_get_max alsa_hw_params PCM_PARAM_PERIODS \<rparr>;
               config4 = config3\<lparr> period_count := pcm_params_get_min alsa_hw_params PCM_PARAM_PERIODS \<rparr>;
               bits_per_sample = pcm_params_get_min alsa_hw_params PCM_PARAM_SAMPLE_BITS;
               config5 = config4\<lparr> pcm_config.format :=
                           bits_to_alsa_format pf bits_per_sample PCM_FORMAT_S16_LE \<rparr>
           in (OK, config5)))"

subsection \<open>Output stream\<close>

definition out_get_sample_rate :: "hal \<Rightarrow> nat" where
  "out_get_sample_rate h = rate (cached_output_hardware_config h)"

definition out_set_sample_rate :: "nat \<Rightarrow> status" where
  "out_set_sample_rate r = OK"

definition out_get_channels :: "stream_out \<Rightarrow> audio_channel_mask" where
  "out_get_channels stream = AUDIO_CHANNEL_OUT_STEREO"

definition out_get_format :: "stream_out \<Rightarrow> audio_format" where
  "out_get_format stream = AUDIO_FORMAT_PCM_16_BIT"

definition out_set_format :: "audio_format \<Rightarrow> status" where
  "out_set_format f = OK"

text \<open>
  \<^verbatim>\<open>out_get_buffer_size\<close> multiplies an \<^verbatim>\<open>unsigned int\<close> by a \<^verbatim>\<open>size_t\<close>:
  the product is a \<^verbatim>\<open>size_t\<close>.
\<close>

definition out_get_buffer_size :: "platform \<Rightarrow> hal \<Rightarrow> stream_out \<Rightarrow> nat" where
  "out_get_buffer_size pf h stream =
     (period_size (cached_output_hardware_config h)
        * audio_stream_frame_size pf (out_get_channels stream) (out_get_format stream))
     mod 2 ^ size_t_bits pf"

definition out_standby :: "hal \<times> stream_out \<Rightarrow> (hal \<times> stream_out) \<times> status" where
  "out_standby s =
     (let (h, out) = s in
      if \<not> stream_out.standby out then
        ((h\<lparr> trace := trace h @ [Pcm_close (stream_out.pcm out)] \<rparr>,
          out\<lparr> stream_out.pcm := None, stream_out.standby := True \<rparr>), OK)
      else ((h, out), OK))"

definition out_set_parameters :: "platform \<Rightarrow> hal \<Rightarrow> str_parms \<Rightarrow> hal \<times> status" where
  "out_set_parameters pf h parms =
     (let (h1, recache1) =
            (case parms ''card'' of
               Some v \<Rightarrow> (h\<lparr> adev := (adev h)\<lparr> out_card := v \<rparr> \<rparr>, True)
             | None \<Rightarrow> (h, False));
          (h2, recache_device_params) =
            (case parms ''device'' of
               Some v \<Rightarrow> (h1\<lparr> adev := (adev h1)\<lparr> out_device := v \<rparr> \<rparr>, True)
             | None \<Rightarrow> (h1, recache1))
      in if recache_device_params \<and> out_card (adev h2) \<ge> 0 \<and> out_device (adev h2) \<ge> 0 then
           (let (ret_value, config) =
                  read_alsa_device_config pf (out_card (adev h2)) (out_device (adev h2)) PCM_OUT
                    (cached_output_hardware_config h2)
            in (h2\<lparr> cached_output_hardware_config := config,
                     output_hardware_config_is_cached := (ret_value = OK) \<rparr>, ret_value))
         else (h2, OK))"

text \<open>\<^verbatim>\<open>out_get_latency\<close> computes in \<^verbatim>\<open>unsigned int\<close>.\<close>

definition out_get_latency :: "hal \<Rightarrow> nat option" where
  "out_get_latency h =
     c_udiv ((period_size (cached_output_hardware_config h)
                * period_count (cached_output_hardware_config h) * 1000) mod 4294967296)
            (out_get_sample_rate h)"

definition out_set_volume :: status where
  "out_set_volume = Error ENOSYS"

text \<open>
  \<^verbatim>\<open>start_output_stream\<close>, called with the stream in standby. The size of the
  conversion buffer is computed in \<^verbatim>\<open>size_t\<close>.
\<close>

definition start_output_stream :: "platform \<Rightarrow> hal \<times> stream_out \<Rightarrow> (hal \<times> stream_out) \<times> status" where
  "start_output_stream pf s =
     (let (h, out) = s;
          h1 = h\<lparr> trace := trace h @ [Pcm_open (out_card (adev h)) (out_device (adev h)) PCM_OUT
                                         (cached_output_hardware_config h)] \<rparr>;
          out1 = out\<lparr> stream_out.pcm := pcm_open pf (out_card (adev h)) (out_device (adev h)) PCM_OUT
                                         (cached_output_hardware_config h) \<rparr>
      in case stream_out.pcm out1 of
           None \<Rightarrow> ((h1, out1), Error ENOMEM)
         | Some p \<Rightarrow>
             if \<not> pcm_is_ready pf p then
               ((h1\<lparr> trace := trace h1 @ [Pcm_close (stream_out.pcm out1)] \<rparr>, out1), Error ENOMEM)
             else
               (let buffer_size = out_get_buffer_size pf h1 out1;
                    out2 = out1\<lparr> conversion_buffer_size :=
                                    (buffer_size * 3 * 2) mod 2 ^ size_t_bits pf div 2 \<rparr>;
                    h2 = h1\<lparr> trace := trace h1 @ [Realloc (conversion_buffer out2)
                                                     (conversion_buffer_size out2)] \<rparr>;
                    out3 = out2\<lparr> conversion_buffer :=
                                    realloc pf (conversion_buffer out2) (conversion_buffer_size out2) \<rparr>
                in ((h2, out3), OK)))"

text \<open>
  The addresses a call of \<^verbatim>\<open>out_write\<close> may access: the \<^verbatim>\<open>bytes\<close> bytes of the
  caller's buffer and the block of the conversion buffer, which has
  \<^verbatim>\<open>conversion_buffer_size\<close> bytes when the pointer is not \<^verbatim>\<open>NULL\<close>.
\<close>

definition out_write_ok :: "stream_out \<Rightarrow> addr \<Rightarrow> nat \<Rightarrow> addr \<Rightarrow> bool" where
  "out_write_ok out buffer bytes a \<longleftrightarrow>
     (buffer \<le> a \<and> a < buffer + int bytes) \<or>
     (conversion_buffer out \<noteq> 0 \<and> conversion_buffer out \<le> a \<and>
      a < conversion_buffer out + int (conversion_buffer_size out))"

text \<open>
  \<^verbatim>\<open>out_write\<close>, in the parts its body has. \<open>out_write_channels\<close> is the block
  "Num Channels conversion" and \<open>out_write_format\<close> the \<^verbatim>\<open>switch\<close> on the cached
  format: each takes and returns the state with \<^verbatim>\<open>write_buff\<close> and
  \<^verbatim>\<open>num_write_buff_bytes\<close>, which is an \<^verbatim>\<open>int\<close>: the \<^verbatim>\<open>size_t\<close> a conversion
  returns is converted to \<^verbatim>\<open>int\<close>, and \<^verbatim>\<open>num_write_buff_bytes / 2\<close> to
  \<^verbatim>\<open>size_t\<close>. \<open>out_write_convert\<close> is the body from
  \<^verbatim>\<open>void * write_buff = buffer;\<close> to the \<^verbatim>\<open>return bytes;\<close> of the normal path, and
  \<open>out_write_err\<close> the code at the label \<^verbatim>\<open>err\<close>, where the argument of
  \<^verbatim>\<open>usleep\<close> is computed in \<^verbatim>\<open>size_t\<close> and converted to the 32 bits of
  \<^verbatim>\<open>useconds_t\<close>. \<^verbatim>\<open>out_write\<close> returns \<^verbatim>\<open>bytes\<close> as an \<^verbatim>\<open>ssize_t\<close>. The
  result is \<open>None\<close> when the call is not known to return: a conversion without
  defined behaviour, a division by zero at \<^verbatim>\<open>err\<close>.
\<close>

definition out_write_channels ::
    "nat \<Rightarrow> (addr \<Rightarrow> bool) \<Rightarrow> hal \<Rightarrow> stream_out \<Rightarrow> addr \<Rightarrow> int \<Rightarrow> (hal \<times> addr \<times> int) option" where
  "out_write_channels W ok h out write_buff num_write_buff_bytes =
     (let num_device_channels = channels (cached_output_hardware_config h);
          num_req_channels = 2
      in if num_device_channels \<noteq> num_req_channels \<and> num_device_channels = 4 then
           (case convert_2chan16_to_4chan16 W ok (mem h) write_buff
                   (to_size_t W (int_div num_write_buff_bytes 2)) (conversion_buffer out) of
              None \<Rightarrow> None
            | Some (m', n') \<Rightarrow> Some (h\<lparr> mem := m' \<rparr>, conversion_buffer out, to_int (int n')))
         else Some (h, write_buff, num_write_buff_bytes))"

definition out_write_format ::
    "nat \<Rightarrow> (addr \<Rightarrow> bool) \<Rightarrow> hal \<Rightarrow> stream_out \<Rightarrow> addr \<Rightarrow> int \<Rightarrow> (hal \<times> addr \<times> int) option" where
  "out_write_format W ok h out write_buff num_write_buff_bytes =
     (case pcm_config.format (cached_output_hardware_config h) of
        PCM_FORMAT_S16_LE \<Rightarrow> Some (h, write_buff, num_write_buff_bytes)
      | PCM_FORMAT_S24_3LE \<Rightarrow>
          (case convert_16_to_24_3 W ok (mem h) write_buff
                  (to_size_t W (int_div num_write_buff_bytes 2)) (conversion_buffer out) of
             None \<Rightarrow> None
           | Some (m', n') \<Rightarrow> Some (h\<lparr> mem := m' \<rparr>, conversion_buffer out, to_int (int n')))
      | _ \<Rightarrow> Some (h, write_buff, num_write_buff_bytes))"

definition out_write_convert ::
    "platform \<Rightarrow> hal \<times> stream_out \<Rightarrow> addr \<Rightarrow> nat \<Rightarrow> ((hal \<times> stream_out) \<times> int) option" where
  "out_write_convert pf s buffer bytes =
     (let (h, out) = s;
          W = size_t_bits pf;
          ok = out_write_ok out buffer bytes
      in case out_write_channels W ok h out buffer (to_int (int bytes)) of
           None \<Rightarrow> None
         | Some (h1, write_buff1, num_write_buff_bytes1) \<Rightarrow>
             (case out_write_format W ok h1 out write_buff1 num_write_buff_bytes1 of
                None \<Rightarrow> None
              | Some (h2, write_buff2, num_write_buff_bytes2) \<Rightarrow>
                  (let h3 = (if write_buff2 \<noteq> 0 \<and> num_write_buff_bytes2 \<noteq> 0 then
                               h2\<lparr> trace := trace h2 @ [Pcm_write (stream_out.pcm out) write_buff2
                                                    (to_unsigned_int num_write_buff_bytes2)] \<rparr>
                             else h2)
                   in Some ((h3, out), to_ssize_t W (int bytes)))))"

definition out_write_err ::
    "platform \<Rightarrow> hal \<times> stream_out \<Rightarrow> nat \<Rightarrow> status \<Rightarrow> ((hal \<times> stream_out) \<times> int) option" where
  "out_write_err pf s bytes ret =
     (let (h, out) = s;
          W = size_t_bits pf
      in if ret \<noteq> OK then
           (case c_udiv (bytes * 1000000 mod 2 ^ W)
                   (audio_stream_frame_size pf (out_get_channels out) (out_get_format out)) of
              None \<Rightarrow> None
            | Some q \<Rightarrow>
                (case c_udiv q (out_get_sample_rate h) of
                   None \<Rightarrow> None
                 | Some t \<Rightarrow>
                     Some ((h\<lparr> trace := trace h @ [Usleep (to_unsigned_int (int t))] \<rparr>, out),
                           to_ssize_t W (int bytes))))
         else Some ((h, out), to_ssize_t W (int bytes)))"

definition out_write ::
    "platform \<Rightarrow> hal \<times> stream_out \<Rightarrow> addr \<Rightarrow> nat \<Rightarrow> ((hal \<times> stream_out) \<times> int) option" where
  "out_write pf s buffer bytes =
     (if stream_out.standby (snd s) then
        (let (s1, ret) = start_output_stream pf s in
         if ret \<noteq> OK then out_write_err pf s1 bytes ret
         else out_write_convert pf (fst s1, (snd s1)\<lparr> stream_out.standby := False \<rparr>)
                buffer bytes)
      else out_write_convert pf s buffer bytes)"

definition out_get_render_position :: status where
  "out_get_render_position = Error EINVAL"

definition out_get_next_write_timestamp :: status where
  "out_get_next_write_timestamp = Error EINVAL"

text \<open>
  \<^verbatim>\<open>adev_open_output_stream\<close> returns the state, the record \<^verbatim>\<open>config\<close> points to, the
  new stream (\<open>None\<close> when none was made) and its status. \<^verbatim>\<open>calloc\<close> hands out a
  zeroed object: no handle, \<^verbatim>\<open>standby\<close> false.
\<close>

definition adev_open_output_stream ::
    "platform \<Rightarrow> hal \<Rightarrow> audio_config \<Rightarrow> hal \<times> audio_config \<times> stream_out option \<times> status" where
  "adev_open_output_stream pf h config =
     (if \<not> calloc_succeeds pf then (h, config, None, Error ENOMEM)
      else
        (let out = \<lparr> stream_out.pcm = None, stream_out.standby = False,
                     conversion_buffer = 0, conversion_buffer_size = 0 \<rparr>;
             (h1, config1) =
               (if output_hardware_config_is_cached h then
                  (let c1 = config\<lparr> sample_rate := rate (cached_output_hardware_config h) \<rparr>;
                       c2 = c1\<lparr> audio_config.format :=
                                 alsa_to_fw_format_id (pcm_config.format (cached_output_hardware_config h)) \<rparr>;
                       c3 = (if audio_config.format c2 \<noteq> AUDIO_FORMAT_PCM_16_BIT
                             then c2\<lparr> audio_config.format := AUDIO_FORMAT_PCM_16_BIT \<rparr> else c2);
                       c4 = c3\<lparr> channel_mask := audio_channel_out_mask_from_count pf
                                                    (channels (cached_output_hardware_config h)) \<rparr>;
                       c5 = (if channel_mask c4 \<noteq> AUDIO_CHANNEL_OUT_STEREO
                             then c4\<lparr> channel_mask := AUDIO_CHANNEL_OUT_STEREO \<rparr> else c4)
                   in (h, c5))
                else
                  (let h' = h\<lparr> cached_output_hardware_config := default_alsa_out_config \<rparr>;
                       c1 = config\<lparr> audio_config.format := out_get_format out \<rparr>;
                       c2 = c1\<lparr> channel_mask := out_get_channels out \<rparr>;
                       c3 = c2\<lparr> sample_rate := out_get_sample_rate h' \<rparr>
                   in (h', c3)));
             out1 = out\<lparr> conversion_buffer := 0 \<rparr>;
             out2 = out1\<lparr> conversion_buffer_size := 0 \<rparr>;
             out3 = out2\<lparr> stream_out.standby := True \<rparr>
         in (h1, config1, Some out3, OK)))"

subsection \<open>Input stream\<close>

text \<open>
  \<^verbatim>\<open>struct stream_in\<close> without its mutex, its function table and the field
  \<^verbatim>\<open>hal_pcm_config\<close>, which no function of the file reads or writes.
\<close>

record stream_in =
  pcm :: pcm_handle
  standby :: bool
  alsa_pcm_config :: pcm_config
  requested_rate :: nat
  buffer :: addr
  buffer_size :: nat
  frames_in :: nat
  read_status :: int

definition in_get_sample_rate :: "stream_in \<Rightarrow> nat" where
  "in_get_sample_rate in_stream = rate (alsa_pcm_config in_stream)"

definition in_set_sample_rate :: "nat \<Rightarrow> status" where
  "in_set_sample_rate r = Error ENOSYS"

definition in_get_channels :: "stream_in \<Rightarrow> audio_channel_mask" where
  "in_get_channels in_stream =
     (if channels (alsa_pcm_config in_stream) = 2 then AUDIO_CHANNEL_IN_STEREO
      else AUDIO_CHANNEL_IN_MONO)"

definition in_get_format :: "stream_in \<Rightarrow> audio_format" where
  "in_get_format in_stream = AUDIO_FORMAT_PCM_16_BIT"

definition in_set_format :: "audio_format \<Rightarrow> status" where
  "in_set_format f = Error ENOSYS"

definition in_get_buffer_size :: "platform \<Rightarrow> stream_in \<Rightarrow> nat" where
  "in_get_buffer_size pf in_stream =
     (period_size (alsa_pcm_config in_stream)
        * audio_stream_frame_size pf (in_get_channels in_stream) (in_get_format in_stream))
     mod 2 ^ size_t_bits pf"

definition in_standby :: "hal \<times> stream_in \<Rightarrow> (hal \<times> stream_in) \<times> status" where
  "in_standby s = (s, OK)"

definition in_set_parameters ::
    "platform \<Rightarrow> hal \<times> stream_in \<Rightarrow> str_parms \<Rightarrow> (hal \<times> stream_in) \<times> status" where
  "in_set_parameters pf s parms =
     (let (h, in_stream) = s;
          h1 = (case parms ''card'' of
                  Some v \<Rightarrow> h\<lparr> adev := (adev h)\<lparr> in_card := v \<rparr> \<rparr>
                | None \<Rightarrow> h);
          h2 = (case parms ''device'' of
                  Some v \<Rightarrow> h1\<lparr> adev := (adev h1)\<lparr> in_device := v \<rparr> \<rparr>
                | None \<Rightarrow> h1)
      in if in_card (adev h2) \<ge> 0 \<and> in_device (adev h2) \<ge> 0 then
           (let (ret_value, config) =
                  read_alsa_device_config pf (in_card (adev h2)) (in_device (adev h2)) PCM_IN
                    (alsa_pcm_config in_stream)
            in ((h2, in_stream\<lparr> alsa_pcm_config := config \<rparr>), ret_value))
         else ((h2, in_stream), OK))"

text \<open>
  \<^verbatim>\<open>in_read\<close>; \<open>buf\<close> is the parameter \<^verbatim>\<open>buffer\<close> of the source (the name of a
  field of the stream here). The \<^verbatim>\<open>size_t bytes\<close> is converted to the
  \<^verbatim>\<open>unsigned int count\<close> of \<^verbatim>\<open>pcm_read\<close>, and the \<^verbatim>\<open>size_t\<close> value of
  \<^verbatim>\<open>err == 0 ? bytes : 0\<close> to the \<^verbatim>\<open>ssize_t\<close> the function returns.
\<close>

definition in_read :: "platform \<Rightarrow> hal \<times> stream_in \<Rightarrow> addr \<Rightarrow> nat \<Rightarrow> (hal \<times> stream_in) \<times> int" where
  "in_read pf s buf bytes =
     (let (h, in_stream) = s;
          count = to_unsigned_int (int bytes);
          (err, m') = pcm_read pf (stream_in.pcm in_stream) buf count (mem h);
          h1 = h\<lparr> mem := m', trace := trace h @ [Pcm_read (stream_in.pcm in_stream) buf count] \<rparr>
      in ((h1, in_stream), to_ssize_t (size_t_bits pf) (int (if err = 0 then bytes else 0))))"

definition in_get_input_frames_lost :: nat where
  "in_get_input_frames_lost = 0"

text \<open>
  \<^verbatim>\<open>adev_open_input_stream\<close> returns the record \<^verbatim>\<open>hal_config\<close> points to, the new
  stream and its status; the \<^verbatim>\<open>switch\<close> is on the format of
  \<^verbatim>\<open>default_alsa_in_config\<close>. \<open>in0\<close> is the zeroed object \<^verbatim>\<open>calloc\<close> hands out
  (its \<^verbatim>\<open>alsa_pcm_config\<close> is assigned before it is read).
\<close>

definition adev_open_input_stream ::
    "platform \<Rightarrow> audio_config \<Rightarrow> audio_config \<times> stream_in option \<times> status" where
  "adev_open_input_stream pf hal_config =
     (if \<not> calloc_succeeds pf then (hal_config, None, Error ENOMEM)
      else
        (let in0 = \<lparr> stream_in.pcm = None, stream_in.standby = False,
                     alsa_pcm_config = \<lparr> channels = 0, rate = 0, period_size = 0, period_count = 0,
                                         pcm_config.format = PCM_FORMAT_S16_LE,
                                         start_threshold = 0, stop_threshold = 0 \<rparr>,
                     requested_rate = 0, buffer = 0,
                     buffer_size = 0, frames_in = 0, read_status = 0 \<rparr>;
             in1 = in0\<lparr> stream_in.standby := True \<rparr>;
             in2 = in1\<lparr> requested_rate := sample_rate hal_config \<rparr>;
             in3 = in2\<lparr> alsa_pcm_config := default_alsa_in_config \<rparr>;
             in4 = (if sample_rate hal_config \<noteq> 0
                    then in3\<lparr> alsa_pcm_config :=
                                 (alsa_pcm_config in3)\<lparr> rate := sample_rate hal_config \<rparr> \<rparr>
                    else in3);
             hal_config1 =
               (case pcm_config.format default_alsa_in_config of
                  PCM_FORMAT_S32_LE \<Rightarrow> hal_config\<lparr> audio_config.format := AUDIO_FORMAT_PCM_32_BIT \<rparr>
                | PCM_FORMAT_S8 \<Rightarrow> hal_config\<lparr> audio_config.format := AUDIO_FORMAT_PCM_8_BIT \<rparr>
                | PCM_FORMAT_S24_LE \<Rightarrow> hal_config\<lparr> audio_config.format := AUDIO_FORMAT_PCM_8_24_BIT \<rparr>
                | PCM_FORMAT_S24_3LE \<Rightarrow> hal_config\<lparr> audio_config.format := AUDIO_FORMAT_PCM_8_24_BIT \<rparr>
                | PCM_FORMAT_S16_LE \<Rightarrow> hal_config\<lparr> audio_config.format := AUDIO_FORMAT_PCM_16_BIT \<rparr>)
         in (hal_config1, Some in4, OK)))"

text \<open>
  The operations of an input stream, as \<^verbatim>\<open>adev_open_input_stream\<close> enters them in the
  stream's table of function pointers, with the arguments that reach the state.
  \<^verbatim>\<open>in_get_parameters\<close> builds its reply from \<^verbatim>\<open>pcm_params_get\<close> and writes to no
  object of the HAL; the getters, \<^verbatim>\<open>in_dump\<close>, \<^verbatim>\<open>in_set_gain\<close> and the effect
  functions return a value and write nothing.
\<close>

datatype in_call =
  In_get_sample_rate | In_set_sample_rate nat | In_get_buffer_size | In_get_channels
  | In_get_format | In_set_format audio_format | In_standby | In_dump
  | In_set_parameters str_parms | In_get_parameters | In_add_audio_effect
  | In_remove_audio_effect | In_set_gain | In_read addr nat | In_get_input_frames_lost

fun in_call_step :: "platform \<Rightarrow> in_call \<Rightarrow> hal \<times> stream_in \<Rightarrow> hal \<times> stream_in" where
  "in_call_step pf In_standby s = fst (in_standby s)"
| "in_call_step pf (In_set_parameters parms) s = fst (in_set_parameters pf s parms)"
| "in_call_step pf (In_read buf bytes) s = fst (in_read pf s buf bytes)"
| "in_call_step pf c s = s"

text \<open>
  A run of an input stream: calls of its operations, each with the platform's answers
  at that time, and between them any change of the state outside the stream (other
  streams, the framework).
\<close>

datatype in_action = Call platform in_call | Outside "hal \<Rightarrow> hal"

fun in_action_step :: "in_action \<Rightarrow> hal \<times> stream_in \<Rightarrow> hal \<times> stream_in" where
  "in_action_step (Call pf c) s = in_call_step pf c s"
| "in_action_step (Outside g) s = (g (fst s), snd s)"

fun in_run :: "in_action list \<Rightarrow> hal \<times> stream_in \<Rightarrow> hal \<times> stream_in" where
  "in_run [] s = s"
| "in_run (a # as) s = in_run as (in_action_step a s)"

subsection \<open>Concrete values for the examples\<close>

definition mem_of_bytes :: "addr \<Rightarrow> byte list \<Rightarrow> memory" where
  "mem_of_bytes base bs =
     (\<lambda>a. if base \<le> a \<and> a < base + int (length bs) then bs ! nat (a - base) else 0)"

subsection \<open>Notions used to state the properties\<close>

text \<open>
  The transport opens for a stream when \<^verbatim>\<open>pcm_open\<close>, called with the output card and
  device and the cached configuration, returns a handle that \<^verbatim>\<open>pcm_is_ready\<close> accepts.
\<close>

definition transport_opens :: "platform \<Rightarrow> hal \<Rightarrow> bool" where
  "transport_opens pf h =
     (case pcm_open pf (out_card (adev h)) (out_device (adev h)) PCM_OUT
             (cached_output_hardware_config h) of
        None \<Rightarrow> False
      | Some p \<Rightarrow> pcm_is_ready pf p)"

fun is_open :: "event \<Rightarrow> bool" where
  "is_open (Pcm_open c d io cfg) = True"
| "is_open e = False"

fun is_realloc :: "event \<Rightarrow> bool" where
  "is_realloc (Realloc p n) = True"
| "is_realloc e = False"


text \<open>The addresses of a block of \<open>n\<close> bytes at \<open>base\<close>.\<close>

definition block :: "addr \<Rightarrow> nat \<Rightarrow> addr \<Rightarrow> bool" where
  "block base n a \<longleftrightarrow> base \<le> a \<and> a < base + int n"

text \<open>A platform, a device state and a memory for the examples.\<close>

definition example_params :: pcm_params where
  "example_params param =
     (case param of
        PCM_PARAM_RATE \<Rightarrow> (8000, 48000)
      | PCM_PARAM_CHANNELS \<Rightarrow> (1, 4)
      | PCM_PARAM_PERIODS \<Rightarrow> (2, 8)
      | PCM_PARAM_SAMPLE_BITS \<Rightarrow> (16, 24)
      | _ \<Rightarrow> (0, 0))"

definition example_bits :: "pcm_format \<Rightarrow> nat" where
  "example_bits fmt =
     (case fmt of
        PCM_FORMAT_S32_LE \<Rightarrow> 32
      | PCM_FORMAT_S24_LE \<Rightarrow> 32
      | PCM_FORMAT_S24_3LE \<Rightarrow> 24
      | _ \<Rightarrow> 16)"

definition example_platform :: platform where
  "example_platform =
     \<lparr> size_t_bits = 64,
       pcm_params_get = (\<lambda>c d io. Some example_params),
       pcm_format_to_bits = example_bits,
       pcm_formats_after_S16_LE =
         [PCM_FORMAT_S32_LE, PCM_FORMAT_S8, PCM_FORMAT_S24_LE, PCM_FORMAT_S24_3LE],
       pcm_open = (\<lambda>c d io cfg. Some 7),
       pcm_is_ready = (\<lambda>p. True),
       pcm_read = (\<lambda>p b n m. (0, m)),
       realloc = (\<lambda>p n. 4096),
       calloc_succeeds = True,
       audio_stream_frame_size = (\<lambda>mask f. 4),
       audio_channel_out_mask_from_count = (\<lambda>n. AUDIO_CHANNEL_BITS n) \<rparr>"

text \<open>The same platform on a target whose \<^verbatim>\<open>size_t\<close> has 32 bits.\<close>

definition example_platform32 :: platform where
  "example_platform32 = example_platform \<lparr> size_t_bits := 32 \<rparr>"

text \<open>The same platform with no device behind it: no capability set, no handle, reads fail.\<close>

definition unplugged_platform :: platform where
  "unplugged_platform =
     example_platform \<lparr> pcm_params_get := (\<lambda>c d io. None),
                        pcm_open := (\<lambda>c d io cfg. None),
                        pcm_read := (\<lambda>p b n m. (- 1, m)) \<rparr>"


definition example_hal :: hal where
  "example_hal =
     \<lparr> adev = \<lparr> out_card = 1, out_device = 0, in_card = 1, in_device = 0,
                audio_device.standby = False \<rparr>,
       cached_output_hardware_config = default_alsa_out_config,
       output_hardware_config_is_cached = False,
       mem = mem_of_bytes 100 [0x34, 0x12, 0x78, 0x56],
       trace = [] \<rparr>"

definition example_audio_config :: audio_config where
  "example_audio_config =
     \<lparr> sample_rate = 48000, channel_mask = AUDIO_CHANNEL_BITS 0,
       audio_config.format = AUDIO_FORMAT_PCM_32_BIT \<rparr>"

text \<open>The platform when the allocator has no memory left for a stream object.\<close>

definition exhausted_platform :: platform where
  "exhausted_platform = example_platform \<lparr> calloc_succeeds := False \<rparr>"

text \<open>A device state whose cache holds a 4-channel configuration, not yet valid and valid.\<close>

definition example_hal_quad :: hal where
  "example_hal_quad =
     example_hal \<lparr> cached_output_hardware_config :=
                     default_alsa_in_config \<lparr> channels := 4, rate := 48000 \<rparr> \<rparr>"

definition example_hal_quad_cached :: hal where
  "example_hal_quad_cached = example_hal_quad \<lparr> output_hardware_config_is_cached := True \<rparr>"

text \<open>The input stream that \<^verbatim>\<open>adev_open_input_stream\<close> makes on the example platform.\<close>

definition example_stream_in :: stream_in where
  "example_stream_in =
     the (fst (snd (adev_open_input_stream example_platform example_audio_config)))"



text \<open>The output stream that \<^verbatim>\<open>adev_open_output_stream\<close> makes on the example platform.\<close>

definition example_stream_out :: stream_out where
  "example_stream_out =
     the (fst (snd (snd (adev_open_output_stream example_platform example_hal
                           example_audio_config))))"

text \<open>An active output stream: that stream with a handle and a conversion buffer.\<close>

definition example_stream_out_active :: stream_out where
  "example_stream_out_active =
     example_stream_out \<lparr> stream_out.pcm := Some 7, stream_out.standby := False,
                          conversion_buffer := 4096, conversion_buffer_size := 12288 \<rparr>"



section \<open>Properties\<close>

subsection \<open>Integers within their ranges\<close>

lemma pow2_ge_32: "32 \<le> W \<Longrightarrow> (4294967296::int) \<le> 2 ^ W"
  using power_increasing[of 32 W "2::int"] by simp

lemma pow2_ge_32_nat: "32 \<le> W \<Longrightarrow> (4294967296::nat) \<le> 2 ^ W"
  using power_increasing[of 32 W "2::nat"] by simp

lemma to_int_id: "int_ok x \<Longrightarrow> to_int x = x"
  by (simp add: to_int_def int_ok_def INT_MAX_def)

lemma to_size_t_id: "32 \<le> W \<Longrightarrow> 0 \<le> x \<Longrightarrow> x \<le> INT_MAX \<Longrightarrow> to_size_t W x = nat x"
  using pow2_ge_32[of W] by (simp add: to_size_t_def INT_MAX_def)

lemma int_div_2: "0 \<le> a \<Longrightarrow> int_div a 2 = a div 2"
  by (cases "a = 0") (simp_all add: int_div_def)

lemma int_add_ok: "int_ok (a + b) \<Longrightarrow> int_add a b = Some (a + b)"
  by (simp add: int_add_def)

lemma int_mul_ok: "int_ok (a * b) \<Longrightarrow> int_mul a b = Some (a * b)"
  by (simp add: int_mul_def)

lemma to_unsigned_int_id: "n < 4294967296 \<Longrightarrow> to_unsigned_int (int n) = n"
  by (simp add: to_unsigned_int_def)

lemma to_ssize_t_id:
  assumes "1 \<le> W" "x < 2 ^ (W - 1)"
  shows "to_ssize_t W (int x) = int x"
proof -
  have p: "(2::int) ^ W = 2 * 2 ^ (W - 1)" using assms(1) by (cases W) simp_all
  have x: "int x < 2 ^ (W - 1)" using assms(2) by (metis of_nat_less_iff of_nat_numeral of_nat_power)
  have "(int x + 2 ^ (W - 1)) mod 2 ^ W = int x + 2 ^ (W - 1)"
    using x unfolding p by (intro mod_pos_pos_trivial) simp_all
  then show ?thesis by (simp add: to_ssize_t_def)
qed

lemma to_ssize_t_zero: "1 \<le> W \<Longrightarrow> to_ssize_t W 0 = 0"
  using to_ssize_t_id[of W 0] by simp

subsection \<open>16-bit values in memory\<close>

lemma ucast_word_cat_lo: "(ucast (word_cat (hi :: byte) (lo :: byte) :: ushort) :: byte) = lo"
  by (rule bit_word_eqI) (auto simp add: bit_simps)

lemma ucast_word_cat_hi: "(ucast (drop_bit 8 (word_cat (hi :: byte) (lo :: byte) :: ushort)) :: byte) = hi"
  by (rule bit_word_eqI) (auto simp add: bit_simps)

lemma store16_load16: "store16 m p (load16 m' s) = m(p := m' s, p + 1 := m' (s + 1))"
  by (simp add: store16_def load16_def ucast_word_cat_lo ucast_word_cat_hi)

lemma store16_zero: "store16 m p 0 = m(p := 0, p + 1 := 0)"
  by (simp add: store16_def)

subsection \<open>Widening 16-bit samples to packed 24-bit samples\<close>

lemma convert_16_to_24_3_loop_stop:
  assumes "32 \<le> W" "int n \<le> INT_MAX"
  shows "convert_16_to_24_3_loop W ok (int n) n src dst m = Some m"
  using assms by (subst convert_16_to_24_3_loop.simps) (simp add: to_size_t_id)

lemma convert_16_to_24_3_loop_step:
  assumes "32 \<le> W" "int n \<le> INT_MAX" "k < n"
  shows "convert_16_to_24_3_loop W ok (int n - int (Suc k)) n src dst m =
           (if ok src \<and> ok dst \<and> ok (src - 1) \<and> ok (dst - 1) \<and> ok (dst - 2) then
              convert_16_to_24_3_loop W ok (int n - int k) n (src - 2) (dst - 3)
                ((m(dst := m src))(dst - 1 := (m(dst := m src)) (src - 1), dst - 2 := 0))
            else None)"
proof -
  have i: "0 \<le> int n - int (Suc k)" "int n - int (Suc k) \<le> INT_MAX" using assms by simp_all
  have lt: "to_size_t W (int n - int (Suc k)) < n"
    unfolding to_size_t_id[OF assms(1) i] using assms(3) by simp
  have ok: "int_ok (int n - int (Suc k) + 1)" using assms by (simp add: int_ok_def INT_MAX_def)
  have e: "int n - int (Suc k) + 1 = int n - int k" by simp
  show ?thesis
    by (subst convert_16_to_24_3_loop.simps)
       (simp only: lt if_True Let_def int_add_ok[OF ok] option.case e)
qed

lemma convert_16_to_24_3_loop_returns:
  assumes W: "32 \<le> W" and n: "int n \<le> INT_MAX"
  shows "k \<le> n \<Longrightarrow> \<forall>a. src - 2 * int k < a \<and> a \<le> src \<longrightarrow> ok a \<Longrightarrow>
         \<forall>a. dst - 3 * int k < a \<and> a \<le> dst \<longrightarrow> ok a \<Longrightarrow>
         \<exists>m'. convert_16_to_24_3_loop W ok (int n - int k) n src dst m = Some m'"
proof (induction k arbitrary: src dst m)
  case 0
  then show ?case using convert_16_to_24_3_loop_stop[OF W n] by simp
next
  case (Suc k)
  have k: "k < n" "k \<le> n" using Suc.prems(1) by simp_all
  have oks: "ok src \<and> ok dst \<and> ok (src - 1) \<and> ok (dst - 1) \<and> ok (dst - 2)"
    using Suc.prems(2,3) by simp
  have a1: "\<forall>a. src - 2 - 2 * int k < a \<and> a \<le> src - 2 \<longrightarrow> ok a"
    using Suc.prems(2) by simp
  have a2: "\<forall>a. dst - 3 - 3 * int k < a \<and> a \<le> dst - 3 \<longrightarrow> ok a"
    using Suc.prems(3) by simp
  show ?case
    unfolding convert_16_to_24_3_loop_step[OF W n k(1)]
    using oks Suc.IH[OF k(2) a1 a2] by simp
qed

lemma convert_16_to_24_3_loop_spec:
  assumes W: "32 \<le> W" and n: "int n \<le> INT_MAX"
  shows "k \<le> n \<Longrightarrow> convert_16_to_24_3_loop W ok (int n - int k) n src dst m = Some m' \<Longrightarrow>
         int k \<le> dst - src \<or> dst \<le> src - 2 * int k \<Longrightarrow>
         (\<forall>j < k. m' (dst - 3 * int j) = m (src - 2 * int j) \<and>
                  m' (dst - 3 * int j - 1) = m (src - 2 * int j - 1) \<and>
                  m' (dst - 3 * int j - 2) = 0) \<and>
         (\<forall>a. a \<le> dst - 3 * int k \<or> dst < a \<longrightarrow> m' a = m a)"
proof (induction k arbitrary: src dst m)
  case 0
  then show ?case using convert_16_to_24_3_loop_stop[OF W n] by simp
next
  case (Suc k)
  have k: "k < n" "k \<le> n" using Suc.prems(1) by simp_all
  define m1 where "m1 = m(dst := m src)"
  define m2 where "m2 = m1(dst - 1 := m1 (src - 1))"
  define m3 where "m3 = m2(dst - 2 := 0)"
  have run: "convert_16_to_24_3_loop W ok (int n - int k) n (src - 2) (dst - 3) m3 = Some m'"
    using Suc.prems(2) unfolding convert_16_to_24_3_loop_step[OF W n k(1)]
    by (simp add: m1_def m2_def m3_def split: if_splits)
  have pre: "int k \<le> (dst - 3) - (src - 2) \<or> dst - 3 \<le> (src - 2) - 2 * int k"
    using Suc.prems(3) by auto
  note IH = Suc.IH[OF k(2) run pre]
  have m3_dst: "m3 dst = m src" by (simp add: m1_def m2_def m3_def)
  have m3_dst1: "m3 (dst - 1) = m (src - 1)"
    using Suc.prems(3) by (auto simp add: m1_def m2_def m3_def)
  have m3_dst2: "m3 (dst - 2) = 0" by (simp add: m3_def)
  have m3_other: "m3 a = m a" if "a \<noteq> dst" "a \<noteq> dst - 1" "a \<noteq> dst - 2" for a
    using that by (simp add: m1_def m2_def m3_def)
  have m3_src: "m3 (src - 2 - 2 * int j) = m (src - 2 - 2 * int j) \<and>
                m3 (src - 2 - 2 * int j - 1) = m (src - 2 - 2 * int j - 1)"
    if "j < k" for j
    using Suc.prems(3) that by (intro conjI m3_other) auto
  show ?case
  proof (intro conjI allI impI)
    fix j assume "j < Suc k"
    show "m' (dst - 3 * int j) = m (src - 2 * int j)"
    proof (cases j)
      case 0
      then show ?thesis using IH m3_dst by simp
    next
      case (Suc j')
      then have "j' < k" using \<open>j < Suc k\<close> by simp
      then show ?thesis using IH m3_src[of j'] Suc by (simp add: algebra_simps)
    qed
    show "m' (dst - 3 * int j - 1) = m (src - 2 * int j - 1)"
    proof (cases j)
      case 0
      then show ?thesis using IH m3_dst1 by simp
    next
      case (Suc j')
      then have "j' < k" using \<open>j < Suc k\<close> by simp
      then show ?thesis using IH m3_src[of j'] Suc by (simp add: algebra_simps)
    qed
    show "m' (dst - 3 * int j - 2) = 0"
    proof (cases j)
      case 0
      then show ?thesis using IH m3_dst2 by simp
    next
      case (Suc j')
      then have "j' < k" using \<open>j < Suc k\<close> by simp
      then show ?thesis using IH Suc by (simp add: algebra_simps)
    qed
  next
    fix a assume a: "a \<le> dst - 3 * int (Suc k) \<or> dst < a"
    then have "a \<le> dst - 3 - 3 * int k \<or> dst - 3 < a" by auto
    then have "m' a = m3 a" using IH by blast
    also have "m3 a = m a" using a by (intro m3_other) auto
    finally show "m' a = m a" .
  qed
qed

lemma convert_16_to_24_3_eq:
  assumes W: "32 \<le> W" and n: "6 * int n \<le> INT_MAX"
  shows "convert_16_to_24_3 W ok m in_buff n out_buff =
           (case convert_16_to_24_3_loop W ok 0 n
                   (in_buff + 2 * int n - 1) (out_buff + 3 * int n - 1) m of
              None \<Rightarrow> None
            | Some m' \<Rightarrow> Some (m', 3 * n))"
proof -
  have small: "n * 2 < 2 ^ W" using pow2_ge_32_nat[OF W] n by (simp add: INT_MAX_def)
  have a: "to_int (int (n * 2 mod 2 ^ W)) = 2 * int n"
    using n by (simp add: small to_int_id int_ok_def INT_MAX_def)
  have b: "int_mul 3 (2 * int n) = Some (6 * int n)"
    using n by (simp add: int_mul_def int_ok_def INT_MAX_def)
  have c: "int_div (6 * int n) 2 = 3 * int n" by (simp add: int_div_2)
  have d: "to_size_t W (3 * int n) = 3 * n"
    using n by (simp add: to_size_t_id[OF W] INT_MAX_def)
  show ?thesis
    by (simp add: convert_16_to_24_3_def a b c d Let_def cong: option.case_cong)
qed

lemma convert_16_to_24_3_returns:
  assumes W: "32 \<le> W" and n: "6 * int n \<le> INT_MAX"
    and acc_in: "\<forall>a. in_buff \<le> a \<and> a < in_buff + 2 * int n \<longrightarrow> ok a"
    and acc_out: "\<forall>a. out_buff \<le> a \<and> a < out_buff + 3 * int n \<longrightarrow> ok a"
  shows "\<exists>m'. convert_16_to_24_3 W ok m in_buff n out_buff = Some (m', 3 * n)"
proof -
  have n': "int n \<le> INT_MAX" using n by simp
  have a1: "\<forall>a. in_buff + 2 * int n - 1 - 2 * int n < a \<and> a \<le> in_buff + 2 * int n - 1 \<longrightarrow> ok a"
    using acc_in by simp
  have a2: "\<forall>a. out_buff + 3 * int n - 1 - 3 * int n < a \<and> a \<le> out_buff + 3 * int n - 1 \<longrightarrow> ok a"
    using acc_out by simp
  from convert_16_to_24_3_loop_returns[OF W n' order_refl a1 a2, where m = m]
  obtain m' where "convert_16_to_24_3_loop W ok 0 n (in_buff + 2 * int n - 1)
                     (out_buff + 3 * int n - 1) m = Some m'"
    by auto
  then show ?thesis unfolding convert_16_to_24_3_eq[OF W n] by simp
qed

lemma convert_16_to_24_3_group:
  assumes W: "32 \<le> W" and n: "6 * int n \<le> INT_MAX"
    and run: "convert_16_to_24_3 W ok m in_buff n out_buff = Some (m', r)"
    and safe: "out_buff = in_buff \<or> in_buff + 2 * int n \<le> out_buff \<or> out_buff + 3 * int n \<le> in_buff"
    and i: "i < n"
  shows "m' (out_buff + 3 * int i) = 0"
    and "m' (out_buff + 3 * int i + 1) = m (in_buff + 2 * int i)"
    and "m' (out_buff + 3 * int i + 2) = m (in_buff + 2 * int i + 1)"
proof -
  define src where "src = in_buff + 2 * int n - 1"
  define dst where "dst = out_buff + 3 * int n - 1"
  define j where "j = n - 1 - i"
  have n': "int n \<le> INT_MAX" using n by simp
  have loop: "convert_16_to_24_3_loop W ok (int n - int n) n src dst m = Some m'"
    using run unfolding convert_16_to_24_3_eq[OF W n] src_def dst_def
    by (simp split: option.splits)
  have pre: "int n \<le> dst - src \<or> dst \<le> src - 2 * int n"
    using safe by (auto simp add: src_def dst_def)
  have j: "j < n" "int j = int n - 1 - int i" using i by (auto simp add: j_def)
  note spec = convert_16_to_24_3_loop_spec[OF W n' order_refl loop pre, THEN conjunct1,
      rule_format, OF j(1)]
  have a: "dst - 3 * int j = out_buff + 3 * int i + 2" "src - 2 * int j = in_buff + 2 * int i + 1"
    by (simp_all add: j(2) src_def dst_def)
  have b: "out_buff + 3 * int i + 2 - 1 = out_buff + 3 * int i + 1"
    "out_buff + 3 * int i + 2 - 2 = out_buff + 3 * int i"
    "in_buff + 2 * int i + 1 - 1 = in_buff + 2 * int i"
    by simp_all
  note spec' = spec[unfolded a b]
  show "m' (out_buff + 3 * int i) = 0" using spec' by blast
  show "m' (out_buff + 3 * int i + 1) = m (in_buff + 2 * int i)" using spec' by blast
  show "m' (out_buff + 3 * int i + 2) = m (in_buff + 2 * int i + 1)" using spec' by blast
qed

lemma convert_16_to_24_3_frame:
  assumes W: "32 \<le> W" and n: "6 * int n \<le> INT_MAX"
    and run: "convert_16_to_24_3 W ok m in_buff n out_buff = Some (m', r)"
    and safe: "out_buff = in_buff \<or> in_buff + 2 * int n \<le> out_buff \<or> out_buff + 3 * int n \<le> in_buff"
    and a: "a < out_buff \<or> out_buff + 3 * int n \<le> a"
  shows "m' a = m a"
proof -
  define src where "src = in_buff + 2 * int n - 1"
  define dst where "dst = out_buff + 3 * int n - 1"
  have n': "int n \<le> INT_MAX" using n by simp
  have loop: "convert_16_to_24_3_loop W ok (int n - int n) n src dst m = Some m'"
    using run unfolding convert_16_to_24_3_eq[OF W n] src_def dst_def
    by (simp split: option.splits)
  have pre: "int n \<le> dst - src \<or> dst \<le> src - 2 * int n"
    using safe by (auto simp add: src_def dst_def)
  have "a \<le> dst - 3 * int n \<or> dst < a" using a by (auto simp add: dst_def)
  then show ?thesis
    using convert_16_to_24_3_loop_spec[OF W n' order_refl loop pre, THEN conjunct2, rule_format, of a]
    by simp
qed

text \<open>
  Claim C1 (amended). For every memory and every number \<open>n\<close> of 16-bit samples with
  \<open>6 * n \<le> INT_MAX\<close> (the product \<^verbatim>\<open>3 * in_buff_size_in_bytes\<close> is a value of
  \<^verbatim>\<open>int\<close>), on a target whose \<^verbatim>\<open>size_t\<close> has at least 32 bits and with the
  \<open>3 * n\<close> bytes at the output buffer and at the input buffer accessible,
  \<^verbatim>\<open>convert_16_to_24_3\<close> returns \<open>3 * n\<close>, which is the input byte length
  \<open>2 * n\<close> times 3/2, and leaves in the output buffer, for every sample \<open>i\<close>, three
  bytes: a zero low-order byte followed by the two bytes of sample \<open>i\<close> in their
  order. This holds when the output buffer is apart from the input and when it is the
  input buffer itself, so the in-place run produces the same \<open>3 * n\<close> bytes as the run
  on buffers apart. No byte outside the \<open>3 * n\<close> output bytes is written.
\<close>

theorem convert_16_to_24_3_widens:
  assumes W: "32 \<le> W" and bound: "6 * int n \<le> INT_MAX"
    and apart: "in_buff + 2 * int n \<le> out_buff \<or> out_buff + 3 * int n \<le> in_buff"
    and acc_in: "\<forall>a. in_buff \<le> a \<and> a < in_buff + 3 * int n \<longrightarrow> ok a"
    and acc_out: "\<forall>a. out_buff \<le> a \<and> a < out_buff + 3 * int n \<longrightarrow> ok a"
  shows "\<exists>m1 m2.
           convert_16_to_24_3 W ok m in_buff n out_buff = Some (m1, 2 * n * 3 div 2) \<and>
           convert_16_to_24_3 W ok m in_buff n in_buff = Some (m2, 2 * n * 3 div 2) \<and>
           2 * n * 3 div 2 = 3 * n \<and>
           (\<forall>i<n. m1 (out_buff + 3 * int i) = 0 \<and>
                  m1 (out_buff + 3 * int i + 1) = m (in_buff + 2 * int i) \<and>
                  m1 (out_buff + 3 * int i + 2) = m (in_buff + 2 * int i + 1)) \<and>
           (\<forall>i<n. m2 (in_buff + 3 * int i) = 0 \<and>
                  m2 (in_buff + 3 * int i + 1) = m (in_buff + 2 * int i) \<and>
                  m2 (in_buff + 3 * int i + 2) = m (in_buff + 2 * int i + 1)) \<and>
           (\<forall>k<3 * n. m2 (in_buff + int k) = m1 (out_buff + int k)) \<and>
           (\<forall>a. a < out_buff \<or> out_buff + 3 * int n \<le> a \<longrightarrow> m1 a = m a) \<and>
           (\<forall>a. a < in_buff \<or> in_buff + 3 * int n \<le> a \<longrightarrow> m2 a = m a)"
proof -
  have acc_in2: "\<forall>a. in_buff \<le> a \<and> a < in_buff + 2 * int n \<longrightarrow> ok a"
    using acc_in by simp
  obtain m1 where r1: "convert_16_to_24_3 W ok m in_buff n out_buff = Some (m1, 3 * n)"
    using convert_16_to_24_3_returns[OF W bound acc_in2 acc_out, where m = m] by blast
  obtain m2 where r2: "convert_16_to_24_3 W ok m in_buff n in_buff = Some (m2, 3 * n)"
    using convert_16_to_24_3_returns[OF W bound acc_in2 acc_in, where m = m] by blast
  have safe1: "out_buff = in_buff \<or> in_buff + 2 * int n \<le> out_buff \<or> out_buff + 3 * int n \<le> in_buff"
    using apart by blast
  have safe2: "in_buff = in_buff \<or> in_buff + 2 * int n \<le> in_buff \<or> in_buff + 3 * int n \<le> in_buff"
    by simp
  note g1 = convert_16_to_24_3_group[OF W bound r1 safe1]
  note g2 = convert_16_to_24_3_group[OF W bound r2 safe2]
  have same: "m2 (in_buff + int k) = m1 (out_buff + int k)" if k: "k < 3 * n" for k
  proof -
    define i where "i = k div 3"
    have i: "i < n" using k by (simp add: i_def less_mult_imp_div_less mult.commute)
    have "k = 3 * i \<or> k = 3 * i + 1 \<or> k = 3 * i + 2" unfolding i_def by arith
    then consider "k = 3 * i" | "k = 3 * i + 1" | "k = 3 * i + 2" by blast
    then show ?thesis
    proof cases
      case 1
      then have e: "in_buff + int k = in_buff + 3 * int i" "out_buff + int k = out_buff + 3 * int i"
        by simp_all
      show ?thesis by (simp only: e g1(1)[OF i] g2(1)[OF i])
    next
      case 2
      then have e: "in_buff + int k = in_buff + 3 * int i + 1" "out_buff + int k = out_buff + 3 * int i + 1"
        by simp_all
      show ?thesis by (simp only: e g1(2)[OF i] g2(2)[OF i])
    next
      case 3
      then have e: "in_buff + int k = in_buff + 3 * int i + 2" "out_buff + int k = out_buff + 3 * int i + 2"
        by simp_all
      show ?thesis by (simp only: e g1(3)[OF i] g2(3)[OF i])
    qed
  qed
  have ret: "2 * n * 3 div 2 = 3 * n" by simp
  show ?thesis
    apply (rule exI[of _ m1], rule exI[of _ m2])
    unfolding ret
    using r1 r2 g1 g2 same convert_16_to_24_3_frame[OF W bound r1 safe1]
      convert_16_to_24_3_frame[OF W bound r2 safe2]
    by simp
qed

theorem convert_16_to_24_3_widens_witness:
  "\<exists>m1 m2.
     convert_16_to_24_3 64 (block 100 200) (mem_of_bytes 100 [0x34, 0x12, 0x78, 0x56]) 100 2 200
       = Some (m1, 6) \<and>
     convert_16_to_24_3 64 (block 100 200) (mem_of_bytes 100 [0x34, 0x12, 0x78, 0x56]) 100 2 100
       = Some (m2, 6) \<and>
     map m1 [200, 201, 202, 203, 204, 205] = [0, 0x34, 0x12, 0, 0x78, 0x56] \<and>
     map m2 [100, 101, 102, 103, 104, 105] = [0, 0x34, 0x12, 0, 0x78, 0x56]"
proof -
  have W: "(32::nat) \<le> 64" by simp
  have b: "6 * int 2 \<le> INT_MAX" by (simp add: INT_MAX_def)
  have h: "(100::int) + 2 * int 2 \<le> 200 \<or> (200::int) + 3 * int 2 \<le> 100" by simp
  have a1: "\<forall>a. 100 \<le> a \<and> a < 100 + 3 * int 2 \<longrightarrow> block 100 200 a" by (simp add: block_def)
  have a2: "\<forall>a. 200 \<le> a \<and> a < 200 + 3 * int 2 \<longrightarrow> block 100 200 a" by (simp add: block_def)
  from convert_16_to_24_3_widens[OF W b h a1 a2, where m = "mem_of_bytes 100 [0x34, 0x12, 0x78, 0x56]"]
  obtain m1 m2 where
    r1: "convert_16_to_24_3 64 (block 100 200) (mem_of_bytes 100 [0x34, 0x12, 0x78, 0x56]) 100 2 200
           = Some (m1, 2 * 2 * 3 div 2)"
    and r2: "convert_16_to_24_3 64 (block 100 200) (mem_of_bytes 100 [0x34, 0x12, 0x78, 0x56]) 100 2 100
           = Some (m2, 2 * 2 * 3 div 2)"
    and g1: "\<forall>i<2. m1 (200 + 3 * int i) = 0 \<and>
               m1 (200 + 3 * int i + 1) = mem_of_bytes 100 [0x34, 0x12, 0x78, 0x56] (100 + 2 * int i) \<and>
               m1 (200 + 3 * int i + 2) = mem_of_bytes 100 [0x34, 0x12, 0x78, 0x56] (100 + 2 * int i + 1)"
    and g2: "\<forall>i<2. m2 (100 + 3 * int i) = 0 \<and>
               m2 (100 + 3 * int i + 1) = mem_of_bytes 100 [0x34, 0x12, 0x78, 0x56] (100 + 2 * int i) \<and>
               m2 (100 + 3 * int i + 2) = mem_of_bytes 100 [0x34, 0x12, 0x78, 0x56] (100 + 2 * int i + 1)"
    by blast
  have i0: "(0::nat) < 2" and i1: "(1::nat) < 2" by simp_all
  have c1: "map m1 [200, 201, 202, 203, 204, 205] = [0, 0x34, 0x12, 0, 0x78, 0x56]"
    using g1[rule_format, OF i0] g1[rule_format, OF i1] by (simp add: mem_of_bytes_def)
  have c2: "map m2 [100, 101, 102, 103, 104, 105] = [0, 0x34, 0x12, 0, 0x78, 0x56]"
    using g2[rule_format, OF i0] g2[rule_format, OF i1] by (simp add: mem_of_bytes_def)
  show ?thesis
    apply (rule exI[of _ m1], rule exI[of _ m2])
    using r1 r2 c1 c2 by simp
qed

text \<open>
  Claim C1 as stated, for every \<open>n\<close>, fails at \<open>n = 357913942\<close>, the least \<open>n\<close> with
  \<open>6 * n > INT_MAX\<close>: the input has \<open>715827884\<close> bytes, and
  \<^verbatim>\<open>3 * in_buff_size_in_bytes\<close> is \<open>2147483652\<close>, which is no \<^verbatim>\<open>int\<close>; the call has
  no defined result there, on a 32-bit and on a 64-bit target, whatever is accessible.
  Where the multiplication wraps around, the product is \<open>- 2147483644\<close>, the output
  size \<open>- 1073741822\<close> (the output pointer starts below the buffer) and the value
  returned on a 64-bit target \<open>2 ^ 64 - 1073741822\<close>, not the \<open>1073741826\<close> bytes of
  the claim.
\<close>

theorem convert_16_to_24_3_overflows:
  "convert_16_to_24_3 32 (block 4096 2147483648) (mem_of_bytes 4096 []) 4096 357913942 4096 = None \<and>
   convert_16_to_24_3 64 (block 4096 2147483648) (mem_of_bytes 4096 []) 4096 357913942 4096 = None \<and>
   6 * 357913941 \<le> INT_MAX \<and>
   to_int (int (357913942 * 2 mod 2 ^ 64)) = 715827884 \<and>
   int_mul 3 715827884 = None \<and>
   to_int (3 * 715827884) = - 2147483644 \<and>
   int_div (- 2147483644) 2 = - 1073741822 \<and>
   to_size_t 64 (- 1073741822) = 18446744072635809794 \<and>
   3 * 357913942 = (1073741826 :: nat)"
  by (simp add: convert_16_to_24_3_def to_int_def to_size_t_def int_div_def int_mul_def
      int_ok_def INT_MAX_def)

subsection \<open>Expanding two channels to four\<close>

lemma convert_2chan16_to_4chan16_loop_stop:
  assumes "32 \<le> W" "int n \<le> INT_MAX"
  shows "convert_2chan16_to_4chan16_loop W ok (int n) n src dst m = Some m"
  using assms by (subst convert_2chan16_to_4chan16_loop.simps) (simp add: to_size_t_id)

lemma convert_2chan16_to_4chan16_loop_step:
  assumes "32 \<le> W" "int n \<le> INT_MAX" "even n" "k < n div 2"
  shows "convert_2chan16_to_4chan16_loop W ok (int n - 2 * int (Suc k)) n src dst m =
           (if ok16 ok dst \<and> ok16 ok (dst - 2) \<and> ok16 ok src \<and> ok16 ok (dst - 4)
               \<and> ok16 ok (src - 2) \<and> ok16 ok (dst - 6) then
              convert_2chan16_to_4chan16_loop W ok (int n - 2 * int k) n (src - 4) (dst - 8)
                (store16 (store16 (store16 (store16 m dst 0) (dst - 2) 0) (dst - 4)
                    (load16 (store16 (store16 m dst 0) (dst - 2) 0) src)) (dst - 6)
                  (load16 (store16 (store16 (store16 m dst 0) (dst - 2) 0) (dst - 4)
                    (load16 (store16 (store16 m dst 0) (dst - 2) 0) src)) (src - 2)))
            else None)"
proof -
  have kn: "2 * Suc k \<le> n" using assms(3,4) by presburger
  have i: "0 \<le> int n - 2 * int (Suc k)" "int n - 2 * int (Suc k) \<le> INT_MAX"
    using assms(2) kn by simp_all
  have lt: "to_size_t W (int n - 2 * int (Suc k)) < n"
    unfolding to_size_t_id[OF assms(1) i] using kn by simp
  have ok: "int_ok (int n - 2 * int (Suc k) + 2)"
    using assms(2) kn by (simp add: int_ok_def INT_MAX_def)
  have e: "int n - 2 * int (Suc k) + 2 = int n - 2 * int k" by simp
  show ?thesis
    by (subst convert_2chan16_to_4chan16_loop.simps)
       (simp only: lt if_True Let_def int_add_ok[OF ok] option.case e)
qed

lemma convert_2chan16_to_4chan16_loop_returns:
  assumes W: "32 \<le> W" and n: "int n \<le> INT_MAX" and ev: "even n"
  shows "k \<le> n div 2 \<Longrightarrow> \<forall>a. src - 4 * int k + 2 \<le> a \<and> a \<le> src + 1 \<longrightarrow> ok a \<Longrightarrow>
         \<forall>a. dst - 8 * int k + 2 \<le> a \<and> a \<le> dst + 1 \<longrightarrow> ok a \<Longrightarrow>
         \<exists>m'. convert_2chan16_to_4chan16_loop W ok (int n - 2 * int k) n src dst m = Some m'"
proof (induction k arbitrary: src dst m)
  case 0
  then show ?case using convert_2chan16_to_4chan16_loop_stop[OF W n] by simp
next
  case (Suc k)
  have k: "k < n div 2" "k \<le> n div 2" using Suc.prems(1) by simp_all
  have oks: "ok16 ok dst \<and> ok16 ok (dst - 2) \<and> ok16 ok src \<and> ok16 ok (dst - 4)
               \<and> ok16 ok (src - 2) \<and> ok16 ok (dst - 6)"
    using Suc.prems(2,3) by (simp add: ok16_def)
  have a1: "\<forall>a. src - 4 - 4 * int k + 2 \<le> a \<and> a \<le> src - 4 + 1 \<longrightarrow> ok a"
    using Suc.prems(2) by simp
  have a2: "\<forall>a. dst - 8 - 8 * int k + 2 \<le> a \<and> a \<le> dst - 8 + 1 \<longrightarrow> ok a"
    using Suc.prems(3) by simp
  show ?case
    unfolding convert_2chan16_to_4chan16_loop_step[OF W n ev k(1)]
    using oks Suc.IH[OF k(2) a1 a2] by simp
qed

lemma convert_2chan16_to_4chan16_loop_spec:
  assumes W: "32 \<le> W" and n: "int n \<le> INT_MAX" and ev: "even n"
  shows "k \<le> n div 2 \<Longrightarrow>
         convert_2chan16_to_4chan16_loop W ok (int n - 2 * int k) n src dst m = Some m' \<Longrightarrow>
         4 * int k \<le> dst - src \<or> dst \<le> src - 4 * int k \<Longrightarrow>
         (\<forall>j < k.
            m' (dst - 8 * int j + 1) = 0 \<and>
            m' (dst - 8 * int j) = 0 \<and>
            m' (dst - 8 * int j - 1) = 0 \<and>
            m' (dst - 8 * int j - 2) = 0 \<and>
            m' (dst - 8 * int j - 3) = m (src - 4 * int j + 1) \<and>
            m' (dst - 8 * int j - 4) = m (src - 4 * int j) \<and>
            m' (dst - 8 * int j - 5) = m (src - 4 * int j - 1) \<and>
            m' (dst - 8 * int j - 6) = m (src - 4 * int j - 2)) \<and>
         (\<forall>a. a < dst - 8 * int k + 2 \<or> dst + 1 < a \<longrightarrow> m' a = m a)"
proof (induction k arbitrary: src dst m)
  case 0
  then show ?case using convert_2chan16_to_4chan16_loop_stop[OF W n] by simp
next
  case (Suc k)
  have k: "k < n div 2" "k \<le> n div 2" using Suc.prems(1) by simp_all
  define m1 where "m1 = store16 m dst 0"
  define m2 where "m2 = store16 m1 (dst - 2) 0"
  define m3 where "m3 = store16 m2 (dst - 4) (load16 m2 src)"
  define m4 where "m4 = store16 m3 (dst - 6) (load16 m3 (src - 2))"
  have run: "convert_2chan16_to_4chan16_loop W ok (int n - 2 * int k) n (src - 4) (dst - 8) m4 = Some m'"
    using Suc.prems(2) unfolding convert_2chan16_to_4chan16_loop_step[OF W n ev k(1)]
    by (simp add: m1_def m2_def m3_def m4_def split: if_splits)
  have prems: "4 * int (Suc k) \<le> dst - src \<or> dst \<le> src - 4 * int (Suc k)"
    using Suc.prems(3) .
  have pre: "4 * int k \<le> (dst - 8) - (src - 4) \<or> dst - 8 \<le> (src - 4) - 4 * int k"
    using prems by auto
  note IH = Suc.IH[OF k(2) run pre]
  have b1: "m1 = m(dst := 0, dst + 1 := 0)" by (simp add: m1_def store16_zero)
  have b2: "m2 = m1(dst - 2 := 0, dst - 1 := 0)" by (simp add: m2_def store16_zero)
  have b3: "m3 = m2(dst - 4 := m2 src, dst - 3 := m2 (src + 1))"
    by (simp add: m3_def store16_load16)
  have b4: "m4 = m3(dst - 6 := m3 (src - 2), dst - 5 := m3 (src - 1))"
    by (simp add: m4_def store16_load16)
  have m4_0: "m4 (dst + 1) = 0" "m4 dst = 0" "m4 (dst - 1) = 0" "m4 (dst - 2) = 0"
    by (simp_all add: b1 b2 b3 b4)
  have m4_1: "m4 (dst - 3) = m (src + 1)" "m4 (dst - 4) = m src"
    using prems by (auto simp add: b1 b2 b3 b4)
  have m4_2: "m4 (dst - 5) = m (src - 1)" "m4 (dst - 6) = m (src - 2)"
    using prems by (auto simp add: b1 b2 b3 b4)
  have m4_other: "m4 a = m a" if "a < dst - 6 \<or> dst + 1 < a" for a
    using that by (auto simp add: b1 b2 b3 b4)
  have m4_src: "m4 (src - 4 - 4 * int j + 1) = m (src - 4 - 4 * int j + 1) \<and>
                m4 (src - 4 - 4 * int j) = m (src - 4 - 4 * int j) \<and>
                m4 (src - 4 - 4 * int j - 1) = m (src - 4 - 4 * int j - 1) \<and>
                m4 (src - 4 - 4 * int j - 2) = m (src - 4 - 4 * int j - 2)"
    if "j < k" for j
    using prems that by (intro conjI m4_other) auto
  have frame: "m' a = m4 a" if "a < dst - 8 - 8 * int k + 2 \<or> dst - 8 + 1 < a" for a
    using IH that by blast
  show ?case
  proof (intro conjI allI impI)
    fix a assume a: "a < dst - 8 * int (Suc k) + 2 \<or> dst + 1 < a"
    then have "m' a = m4 a" by (intro frame) auto
    also have "m4 a = m a" using a by (intro m4_other) auto
    finally show "m' a = m a" .
  next
    fix j assume j: "j < Suc k"
    show "m' (dst - 8 * int j + 1) = 0"
    proof (cases j)
      case 0
      then show ?thesis using frame[of "dst + 1"] m4_0 by simp
    next
      case (Suc j')
      then have "j' < k" using j by simp
      then show ?thesis using IH Suc by (simp add: algebra_simps)
    qed
    show "m' (dst - 8 * int j) = 0"
    proof (cases j)
      case 0
      then show ?thesis using frame[of "dst"] m4_0 by simp
    next
      case (Suc j')
      then have "j' < k" using j by simp
      then show ?thesis using IH Suc by (simp add: algebra_simps)
    qed
    show "m' (dst - 8 * int j - 1) = 0"
    proof (cases j)
      case 0
      then show ?thesis using frame[of "dst - 1"] m4_0 by simp
    next
      case (Suc j')
      then have "j' < k" using j by simp
      then show ?thesis using IH Suc by (simp add: algebra_simps)
    qed
    show "m' (dst - 8 * int j - 2) = 0"
    proof (cases j)
      case 0
      then show ?thesis using frame[of "dst - 2"] m4_0 by simp
    next
      case (Suc j')
      then have "j' < k" using j by simp
      then show ?thesis using IH Suc by (simp add: algebra_simps)
    qed
    show "m' (dst - 8 * int j - 3) = m (src - 4 * int j + 1)"
    proof (cases j)
      case 0
      then show ?thesis using frame[of "dst - 3"] m4_1 by simp
    next
      case (Suc j')
      then have "j' < k" using j by simp
      then show ?thesis using IH m4_src[of j'] Suc by (simp add: algebra_simps)
    qed
    show "m' (dst - 8 * int j - 4) = m (src - 4 * int j)"
    proof (cases j)
      case 0
      then show ?thesis using frame[of "dst - 4"] m4_1 by simp
    next
      case (Suc j')
      then have "j' < k" using j by simp
      then show ?thesis using IH m4_src[of j'] Suc by (simp add: algebra_simps)
    qed
    show "m' (dst - 8 * int j - 5) = m (src - 4 * int j - 1)"
    proof (cases j)
      case 0
      then show ?thesis using frame[of "dst - 5"] m4_2 by simp
    next
      case (Suc j')
      then have "j' < k" using j by simp
      then show ?thesis using IH m4_src[of j'] Suc by (simp add: algebra_simps)
    qed
    show "m' (dst - 8 * int j - 6) = m (src - 4 * int j - 2)"
    proof (cases j)
      case 0
      then show ?thesis using frame[of "dst - 6"] m4_2 by simp
    next
      case (Suc j')
      then have "j' < k" using j by simp
      then show ?thesis using IH m4_src[of j'] Suc by (simp add: algebra_simps)
    qed
  qed
qed

lemma convert_2chan16_to_4chan16_eq:
  assumes W: "32 \<le> W" and n: "4 * int n \<le> INT_MAX"
  shows "convert_2chan16_to_4chan16 W ok m in_buff n out_buff =
           (case convert_2chan16_to_4chan16_loop W ok 0 n
                   (in_buff + 2 * (int n - 1)) (out_buff + 2 * (2 * int n - 1)) m of
              None \<Rightarrow> None
            | Some m' \<Rightarrow> Some (m', 4 * n))"
proof -
  have small: "n * 2 < 2 ^ W" using pow2_ge_32_nat[OF W] n by (simp add: INT_MAX_def)
  have a: "to_int (int (n * 2 mod 2 ^ W)) = 2 * int n"
    using n by (simp add: small to_int_id int_ok_def INT_MAX_def)
  have b: "int_mul (2 * int n) 2 = Some (4 * int n)"
    using n by (simp add: int_mul_def int_ok_def INT_MAX_def)
  have d: "to_size_t W (4 * int n) = 4 * n"
    using n by (simp add: to_size_t_id[OF W] INT_MAX_def)
  show ?thesis
    by (simp add: convert_2chan16_to_4chan16_def a b d Let_def cong: option.case_cong)
qed

lemma convert_2chan16_to_4chan16_returns:
  assumes W: "32 \<le> W" and n: "4 * int n \<le> INT_MAX" and ev: "even n"
    and acc_in: "\<forall>a. in_buff \<le> a \<and> a < in_buff + 2 * int n \<longrightarrow> ok a"
    and acc_out: "\<forall>a. out_buff \<le> a \<and> a < out_buff + 4 * int n \<longrightarrow> ok a"
  shows "\<exists>m'. convert_2chan16_to_4chan16 W ok m in_buff n out_buff = Some (m', 4 * n)"
proof -
  have n': "int n \<le> INT_MAX" using n by simp
  have half: "int n = 2 * int (n div 2)" using ev by auto
  have a1: "\<forall>a. in_buff + 2 * (int n - 1) - 4 * int (n div 2) + 2 \<le> a \<and>
                a \<le> in_buff + 2 * (int n - 1) + 1 \<longrightarrow> ok a"
    using acc_in half by simp
  have a2: "\<forall>a. out_buff + 2 * (2 * int n - 1) - 8 * int (n div 2) + 2 \<le> a \<and>
                a \<le> out_buff + 2 * (2 * int n - 1) + 1 \<longrightarrow> ok a"
    using acc_out half by simp
  have z: "int n - 2 * int (n div 2) = 0" using half by simp
  from convert_2chan16_to_4chan16_loop_returns[OF W n' ev order_refl a1 a2, where m = m]
  obtain m' where "convert_2chan16_to_4chan16_loop W ok 0 n (in_buff + 2 * (int n - 1))
                     (out_buff + 2 * (2 * int n - 1)) m = Some m'"
    unfolding z by auto
  then show ?thesis unfolding convert_2chan16_to_4chan16_eq[OF W n] by simp
qed

lemma convert_2chan16_to_4chan16_frame_bytes:
  assumes W: "32 \<le> W" and bound: "4 * int n \<le> INT_MAX" and n: "even n"
    and run: "convert_2chan16_to_4chan16 W ok m in_buff n out_buff = Some (m', r)"
    and safe: "out_buff = in_buff \<or> in_buff + 2 * int n \<le> out_buff \<or> out_buff + 4 * int n \<le> in_buff"
    and f: "f < n div 2"
  shows "m' (out_buff + 8 * int f) = m (in_buff + 4 * int f)"
    and "m' (out_buff + 8 * int f + 1) = m (in_buff + 4 * int f + 1)"
    and "m' (out_buff + 8 * int f + 2) = m (in_buff + 4 * int f + 2)"
    and "m' (out_buff + 8 * int f + 3) = m (in_buff + 4 * int f + 3)"
    and "m' (out_buff + 8 * int f + 4) = 0"
    and "m' (out_buff + 8 * int f + 5) = 0"
    and "m' (out_buff + 8 * int f + 6) = 0"
    and "m' (out_buff + 8 * int f + 7) = 0"
proof -
  define src where "src = in_buff + 2 * (int n - 1)"
  define dst where "dst = out_buff + 2 * (2 * int n - 1)"
  define j where "j = n div 2 - 1 - f"
  have n': "int n \<le> INT_MAX" using bound by simp
  have half: "int n = 2 * int (n div 2)" using n by auto
  have z: "int n - 2 * int (n div 2) = 0" using half by simp
  have loop: "convert_2chan16_to_4chan16_loop W ok (int n - 2 * int (n div 2)) n src dst m = Some m'"
    using run unfolding convert_2chan16_to_4chan16_eq[OF W bound] src_def dst_def z
    by (simp split: option.splits)
  have pre: "4 * int (n div 2) \<le> dst - src \<or> dst \<le> src - 4 * int (n div 2)"
    using safe half by (auto simp add: src_def dst_def)
  have j: "j < n div 2" "int j = int (n div 2) - 1 - int f"
    using f by (auto simp add: j_def)
  note spec = convert_2chan16_to_4chan16_loop_spec[OF W n' n order_refl loop pre, THEN conjunct1,
      rule_format, OF j(1)]
  have a: "dst - 8 * int j = out_buff + 8 * int f + 6" "src - 4 * int j = in_buff + 4 * int f + 2"
    using half by (simp_all add: j(2) src_def dst_def)
  have b: "out_buff + 8 * int f + 6 + 1 = out_buff + 8 * int f + 7"
    "out_buff + 8 * int f + 6 - 1 = out_buff + 8 * int f + 5"
    "out_buff + 8 * int f + 6 - 2 = out_buff + 8 * int f + 4"
    "out_buff + 8 * int f + 6 - 3 = out_buff + 8 * int f + 3"
    "out_buff + 8 * int f + 6 - 4 = out_buff + 8 * int f + 2"
    "out_buff + 8 * int f + 6 - 5 = out_buff + 8 * int f + 1"
    "out_buff + 8 * int f + 6 - 6 = out_buff + 8 * int f"
    "in_buff + 4 * int f + 2 + 1 = in_buff + 4 * int f + 3"
    "in_buff + 4 * int f + 2 - 1 = in_buff + 4 * int f + 1"
    "in_buff + 4 * int f + 2 - 2 = in_buff + 4 * int f"
    by simp_all
  note spec' = spec[unfolded a b]
  show "m' (out_buff + 8 * int f) = m (in_buff + 4 * int f)" using spec' by blast
  show "m' (out_buff + 8 * int f + 1) = m (in_buff + 4 * int f + 1)" using spec' by blast
  show "m' (out_buff + 8 * int f + 2) = m (in_buff + 4 * int f + 2)" using spec' by blast
  show "m' (out_buff + 8 * int f + 3) = m (in_buff + 4 * int f + 3)" using spec' by blast
  show "m' (out_buff + 8 * int f + 4) = 0" using spec' by blast
  show "m' (out_buff + 8 * int f + 5) = 0" using spec' by blast
  show "m' (out_buff + 8 * int f + 6) = 0" using spec' by blast
  show "m' (out_buff + 8 * int f + 7) = 0" using spec' by blast
qed

lemma convert_2chan16_to_4chan16_frame:
  assumes W: "32 \<le> W" and bound: "4 * int n \<le> INT_MAX" and n: "even n"
    and run: "convert_2chan16_to_4chan16 W ok m in_buff n out_buff = Some (m', r)"
    and safe: "out_buff = in_buff \<or> in_buff + 2 * int n \<le> out_buff \<or> out_buff + 4 * int n \<le> in_buff"
    and a: "a < out_buff \<or> out_buff + 4 * int n \<le> a"
  shows "m' a = m a"
proof -
  define src where "src = in_buff + 2 * (int n - 1)"
  define dst where "dst = out_buff + 2 * (2 * int n - 1)"
  have n': "int n \<le> INT_MAX" using bound by simp
  have half: "int n = 2 * int (n div 2)" using n by auto
  have z: "int n - 2 * int (n div 2) = 0" using half by simp
  have loop: "convert_2chan16_to_4chan16_loop W ok (int n - 2 * int (n div 2)) n src dst m = Some m'"
    using run unfolding convert_2chan16_to_4chan16_eq[OF W bound] src_def dst_def z
    by (simp split: option.splits)
  have pre: "4 * int (n div 2) \<le> dst - src \<or> dst \<le> src - 4 * int (n div 2)"
    using safe half by (auto simp add: src_def dst_def)
  have "a < dst - 8 * int (n div 2) + 2 \<or> dst + 1 < a"
    using a half by (auto simp add: dst_def)
  then show ?thesis
    using convert_2chan16_to_4chan16_loop_spec[OF W n' n order_refl loop pre, THEN conjunct2,
        rule_format, of a]
    by simp
qed

lemma convert_2chan16_to_4chan16_same_bytes:
  assumes W: "32 \<le> W" and bound: "4 * int n \<le> INT_MAX" and n: "even n"
    and run1: "convert_2chan16_to_4chan16 W ok m in_buff n o1 = Some (m1, r1)"
    and run2: "convert_2chan16_to_4chan16 W ok m in_buff n o2 = Some (m2, r2)"
    and safe1: "o1 = in_buff \<or> in_buff + 2 * int n \<le> o1 \<or> o1 + 4 * int n \<le> in_buff"
    and safe2: "o2 = in_buff \<or> in_buff + 2 * int n \<le> o2 \<or> o2 + 4 * int n \<le> in_buff"
    and k: "k < 4 * n"
  shows "m1 (o1 + int k) = m2 (o2 + int k)"
proof -
  define f where "f = k div 8"
  have f: "f < n div 2" using k n unfolding f_def by auto
  note g1 = convert_2chan16_to_4chan16_frame_bytes[OF W bound n run1 safe1 f]
  note g2 = convert_2chan16_to_4chan16_frame_bytes[OF W bound n run2 safe2 f]
  have "k = 8 * f \<or> k = 8 * f + 1 \<or> k = 8 * f + 2 \<or> k = 8 * f + 3 \<or>
        k = 8 * f + 4 \<or> k = 8 * f + 5 \<or> k = 8 * f + 6 \<or> k = 8 * f + 7"
    unfolding f_def by arith
  then consider "int k = 8 * int f" | "int k = 8 * int f + 1" | "int k = 8 * int f + 2"
    | "int k = 8 * int f + 3" | "int k = 8 * int f + 4" | "int k = 8 * int f + 5"
    | "int k = 8 * int f + 6" | "int k = 8 * int f + 7"
    by fastforce
  then show ?thesis
  proof cases
    case 1
    show ?thesis by (simp only: 1 g1(1) g2(1) add.assoc[symmetric])
  next
    case 2
    show ?thesis by (simp only: 2 g1(2) g2(2) add.assoc[symmetric])
  next
    case 3
    show ?thesis by (simp only: 3 g1(3) g2(3) add.assoc[symmetric])
  next
    case 4
    show ?thesis by (simp only: 4 g1(4) g2(4) add.assoc[symmetric])
  next
    case 5
    show ?thesis by (simp only: 5 g1(5) g2(5) add.assoc[symmetric])
  next
    case 6
    show ?thesis by (simp only: 6 g1(6) g2(6) add.assoc[symmetric])
  next
    case 7
    show ?thesis by (simp only: 7 g1(7) g2(7) add.assoc[symmetric])
  next
    case 8
    show ?thesis by (simp only: 8 g1(8) g2(8) add.assoc[symmetric])
  qed
qed

lemma convert_2chan16_to_4chan16_frame_samples:
  assumes W: "32 \<le> W" and bound: "4 * int n \<le> INT_MAX" and n: "even n"
    and run: "convert_2chan16_to_4chan16 W ok m in_buff n out_buff = Some (m', r)"
    and safe: "out_buff = in_buff \<or> in_buff + 2 * int n \<le> out_buff \<or> out_buff + 4 * int n \<le> in_buff"
    and f: "f < n div 2"
  shows "load16 m' (out_buff + 8 * int f) = load16 m (in_buff + 4 * int f) \<and>
         load16 m' (out_buff + 8 * int f + 2) = load16 m (in_buff + 4 * int f + 2) \<and>
         load16 m' (out_buff + 8 * int f + 4) = 0 \<and>
         load16 m' (out_buff + 8 * int f + 6) = 0"
proof -
  note g = convert_2chan16_to_4chan16_frame_bytes[OF W bound n run safe f]
  have c: "out_buff + 8 * int f + 2 + 1 = out_buff + 8 * int f + 3"
    "out_buff + 8 * int f + 4 + 1 = out_buff + 8 * int f + 5"
    "out_buff + 8 * int f + 6 + 1 = out_buff + 8 * int f + 7"
    "in_buff + 4 * int f + 2 + 1 = in_buff + 4 * int f + 3"
    by simp_all
  have z: "word_cat (0 :: byte) (0 :: byte) = (0 :: ushort)" by simp
  show ?thesis
    unfolding load16_def c g z by simp
qed

text \<open>
  Claim C2 (amended). For every even number \<open>n\<close> of interleaved 16-bit samples
  (\<open>n div 2\<close> stereo frames, \<open>2 * n\<close> bytes) with \<open>4 * n \<le> INT_MAX\<close> (the product
  \<^verbatim>\<open>out_buff_size * 2\<close> is a value of \<^verbatim>\<open>int\<close>), on a target whose \<^verbatim>\<open>size_t\<close>
  has at least 32 bits and with the \<open>4 * n\<close> bytes at the output buffer and at the
  input buffer accessible, \<^verbatim>\<open>convert_2chan16_to_4chan16\<close> returns \<open>2 * (2 * n)\<close>
  bytes and leaves, for every frame \<open>f\<close>, four 16-bit values in the output: the two
  samples of input frame \<open>f\<close>, then two zeros. This holds for an output buffer apart
  from the input and for the input buffer itself, and the two runs produce the same
  output bytes. No byte outside the output is written.
\<close>

theorem convert_2chan16_to_4chan16_expands:
  assumes W: "32 \<le> W" and bound: "4 * int n \<le> INT_MAX" and n: "even n"
    and apart: "in_buff + 2 * int n \<le> out_buff \<or> out_buff + 4 * int n \<le> in_buff"
    and acc_in: "\<forall>a. in_buff \<le> a \<and> a < in_buff + 4 * int n \<longrightarrow> ok a"
    and acc_out: "\<forall>a. out_buff \<le> a \<and> a < out_buff + 4 * int n \<longrightarrow> ok a"
  shows "\<exists>m1 m2.
           convert_2chan16_to_4chan16 W ok m in_buff n out_buff = Some (m1, 2 * (2 * n)) \<and>
           convert_2chan16_to_4chan16 W ok m in_buff n in_buff = Some (m2, 2 * (2 * n)) \<and>
           (\<forall>f < n div 2.
              load16 m1 (out_buff + 8 * int f) = load16 m (in_buff + 4 * int f) \<and>
              load16 m1 (out_buff + 8 * int f + 2) = load16 m (in_buff + 4 * int f + 2) \<and>
              load16 m1 (out_buff + 8 * int f + 4) = 0 \<and>
              load16 m1 (out_buff + 8 * int f + 6) = 0) \<and>
           (\<forall>f < n div 2.
              load16 m2 (in_buff + 8 * int f) = load16 m (in_buff + 4 * int f) \<and>
              load16 m2 (in_buff + 8 * int f + 2) = load16 m (in_buff + 4 * int f + 2) \<and>
              load16 m2 (in_buff + 8 * int f + 4) = 0 \<and>
              load16 m2 (in_buff + 8 * int f + 6) = 0) \<and>
           (\<forall>k < 4 * n. m2 (in_buff + int k) = m1 (out_buff + int k)) \<and>
           (\<forall>a. a < out_buff \<or> out_buff + 4 * int n \<le> a \<longrightarrow> m1 a = m a) \<and>
           (\<forall>a. a < in_buff \<or> in_buff + 4 * int n \<le> a \<longrightarrow> m2 a = m a)"
proof -
  have acc_in2: "\<forall>a. in_buff \<le> a \<and> a < in_buff + 2 * int n \<longrightarrow> ok a"
    using acc_in by simp
  obtain m1 where r1: "convert_2chan16_to_4chan16 W ok m in_buff n out_buff = Some (m1, 4 * n)"
    using convert_2chan16_to_4chan16_returns[OF W bound n acc_in2 acc_out, where m = m] by blast
  obtain m2 where r2: "convert_2chan16_to_4chan16 W ok m in_buff n in_buff = Some (m2, 4 * n)"
    using convert_2chan16_to_4chan16_returns[OF W bound n acc_in2 acc_in, where m = m] by blast
  have safe1: "out_buff = in_buff \<or> in_buff + 2 * int n \<le> out_buff \<or> out_buff + 4 * int n \<le> in_buff"
    using apart by blast
  have safe2: "in_buff = in_buff \<or> in_buff + 2 * int n \<le> in_buff \<or> in_buff + 4 * int n \<le> in_buff"
    by simp
  show ?thesis
    apply (rule exI[of _ m1], rule exI[of _ m2])
    using r1 r2
      convert_2chan16_to_4chan16_frame_samples[OF W bound n r1 safe1]
      convert_2chan16_to_4chan16_frame_samples[OF W bound n r2 safe2]
      convert_2chan16_to_4chan16_same_bytes[OF W bound n r2 r1 safe2 safe1]
      convert_2chan16_to_4chan16_frame[OF W bound n r1 safe1]
      convert_2chan16_to_4chan16_frame[OF W bound n r2 safe2]
    by simp
qed

lemma load16_mem_of_bytes:
  "base \<le> p \<Longrightarrow> p + 1 < base + int (length bs) \<Longrightarrow>
   load16 (mem_of_bytes base bs) p = word_cat (bs ! nat (p + 1 - base)) (bs ! nat (p - base))"
  by (simp add: load16_def mem_of_bytes_def)

theorem convert_2chan16_to_4chan16_expands_witness:
  "\<exists>m1 m2.
     convert_2chan16_to_4chan16 64 (block 100 200) (mem_of_bytes 100 [0x34, 0x12, 0x78, 0x56]) 100 2 200
       = Some (m1, 8) \<and>
     convert_2chan16_to_4chan16 64 (block 100 200) (mem_of_bytes 100 [0x34, 0x12, 0x78, 0x56]) 100 2 100
       = Some (m2, 8) \<and>
     map (load16 m1) [200, 202, 204, 206] = [0x1234, 0x5678, 0, 0] \<and>
     map (load16 m2) [100, 102, 104, 106] = [0x1234, 0x5678, 0, 0]"
proof -
  have W: "(32::nat) \<le> 64" by simp
  have b: "4 * int 2 \<le> INT_MAX" by (simp add: INT_MAX_def)
  have n: "even (2::nat)" by simp
  have h: "(100::int) + 2 * int 2 \<le> 200 \<or> (200::int) + 4 * int 2 \<le> 100" by simp
  have a1: "\<forall>a. 100 \<le> a \<and> a < 100 + 4 * int 2 \<longrightarrow> block 100 200 a" by (simp add: block_def)
  have a2: "\<forall>a. 200 \<le> a \<and> a < 200 + 4 * int 2 \<longrightarrow> block 100 200 a" by (simp add: block_def)
  from convert_2chan16_to_4chan16_expands[OF W b n h a1 a2, where m = "mem_of_bytes 100 [0x34, 0x12, 0x78, 0x56]"]
  obtain m1 m2 where
    r1: "convert_2chan16_to_4chan16 64 (block 100 200) (mem_of_bytes 100 [0x34, 0x12, 0x78, 0x56]) 100 2 200
           = Some (m1, 2 * (2 * 2))"
    and r2: "convert_2chan16_to_4chan16 64 (block 100 200) (mem_of_bytes 100 [0x34, 0x12, 0x78, 0x56]) 100 2 100
           = Some (m2, 2 * (2 * 2))"
    and g1: "\<forall>f < 2 div 2.
              load16 m1 (200 + 8 * int f) = load16 (mem_of_bytes 100 [0x34, 0x12, 0x78, 0x56]) (100 + 4 * int f) \<and>
              load16 m1 (200 + 8 * int f + 2) = load16 (mem_of_bytes 100 [0x34, 0x12, 0x78, 0x56]) (100 + 4 * int f + 2) \<and>
              load16 m1 (200 + 8 * int f + 4) = 0 \<and>
              load16 m1 (200 + 8 * int f + 6) = 0"
    and g2: "\<forall>f < 2 div 2.
              load16 m2 (100 + 8 * int f) = load16 (mem_of_bytes 100 [0x34, 0x12, 0x78, 0x56]) (100 + 4 * int f) \<and>
              load16 m2 (100 + 8 * int f + 2) = load16 (mem_of_bytes 100 [0x34, 0x12, 0x78, 0x56]) (100 + 4 * int f + 2) \<and>
              load16 m2 (100 + 8 * int f + 4) = 0 \<and>
              load16 m2 (100 + 8 * int f + 6) = 0"
    by blast
  have f0: "(0::nat) < 2 div 2" by simp
  have s1: "load16 (mem_of_bytes 100 [0x34, 0x12, 0x78, 0x56]) 100 = 0x1234"
    by (simp add: load16_mem_of_bytes word_cat_eq)
  have s2: "load16 (mem_of_bytes 100 [0x34, 0x12, 0x78, 0x56]) 102 = 0x5678"
    by (simp add: load16_mem_of_bytes word_cat_eq)
  have c1: "map (load16 m1) [200, 202, 204, 206] = [0x1234, 0x5678, 0, 0]"
    using g1[rule_format, OF f0] s1 s2 by simp
  have c2: "map (load16 m2) [100, 102, 104, 106] = [0x1234, 0x5678, 0, 0]"
    using g2[rule_format, OF f0] s1 s2 by simp
  show ?thesis
    apply (rule exI[of _ m1], rule exI[of _ m2])
    using r1 r2 c1 c2 by simp
qed

text \<open>
  Claim C2 as stated, for every even \<open>n\<close>, fails at \<open>n = 536870912\<close>, the least
  even \<open>n\<close> with \<open>4 * n > INT_MAX\<close>: \<^verbatim>\<open>out_buff_size\<close> is \<open>1073741824\<close>, and the
  product \<^verbatim>\<open>out_buff_size * 2\<close> that the function returns is \<open>2147483648\<close>, which is
  no \<^verbatim>\<open>int\<close>; the call has no defined result, whatever the loop has done. Where the
  multiplication wraps around, the product is \<open>- 2147483648\<close> and the value returned
  on a 64-bit target \<open>2 ^ 64 - 2147483648\<close>, not the \<open>2147483648\<close> bytes of the claim.
\<close>

theorem convert_2chan16_to_4chan16_overflows:
  "convert_2chan16_to_4chan16 64 (block 4294967296 8589934592) (mem_of_bytes 4294967296 [])
     4294967296 536870912 8589934592 = None \<and>
   even (536870912::nat) \<and> 4 * 536870910 \<le> INT_MAX \<and>
   to_int (int (536870912 * 2 mod 2 ^ 64)) = 1073741824 \<and>
   int_mul 1073741824 2 = None \<and>
   to_int (1073741824 * 2) = - 2147483648 \<and>
   to_size_t 64 (- 2147483648) = 18446744071562067968 \<and>
   2 * (2 * 536870912) = (2147483648 :: nat)"
  by (simp add: convert_2chan16_to_4chan16_def to_int_def to_size_t_def int_mul_def int_ok_def
      INT_MAX_def Let_def split: option.split)

subsection \<open>The configuration read from a device\<close>

lemma bits_to_alsa_format_loop_find:
  "bits_to_alsa_format_loop pf fmts b d =
     (case find (\<lambda>f. pcm_format_to_bits pf f = b) fmts of None \<Rightarrow> d | Some f \<Rightarrow> f)"
  by (induction fmts) simp_all

lemma bits_to_alsa_format_first:
  assumes "k < length fmts" "pcm_format_to_bits pf (fmts ! k) = b"
    "\<forall>j<k. pcm_format_to_bits pf (fmts ! j) \<noteq> b"
  shows "bits_to_alsa_format_loop pf fmts b d = fmts ! k"
proof -
  have "find (\<lambda>f. pcm_format_to_bits pf f = b) fmts = Some (fmts ! k)"
    unfolding find_Some_iff using assms by blast
  then show ?thesis by (simp add: bits_to_alsa_format_loop_find)
qed

lemma bits_to_alsa_format_none:
  assumes "\<forall>f \<in> set fmts. pcm_format_to_bits pf f \<noteq> b"
  shows "bits_to_alsa_format_loop pf fmts b d = d"
proof -
  have "find (\<lambda>f. pcm_format_to_bits pf f = b) fmts = None"
    unfolding find_None_iff using assms by blast
  then show ?thesis by (simp add: bits_to_alsa_format_loop_find)
qed

lemma read_alsa_device_config_ok:
  assumes "0 \<le> card_no" "0 \<le> device" "pcm_params_get pf card_no device io_type = Some caps"
  shows "read_alsa_device_config pf card_no device io_type config =
           (OK, config\<lparr> channels := pcm_params_get_min caps PCM_PARAM_CHANNELS,
                        rate := pcm_params_get_min caps PCM_PARAM_RATE,
                        period_size := pcm_params_get_max caps PCM_PARAM_PERIODS,
                        period_count := pcm_params_get_min caps PCM_PARAM_PERIODS,
                        pcm_config.format :=
                          bits_to_alsa_format pf (pcm_params_get_min caps PCM_PARAM_SAMPLE_BITS)
                            PCM_FORMAT_S16_LE \<rparr>)"
  using assms by (simp add: read_alsa_device_config_def Let_def)

text \<open>
  Claim C3. When the transport reports a capability set \<open>caps\<close> for non-negative
  coordinates, \<^verbatim>\<open>read_alsa_device_config\<close> returns 0 and a configuration that is a
  function of \<open>caps\<close> alone in the fields it sets: the channel count is the minimum of
  the channels, the rate the minimum of the rates, the period size the maximum of the
  parameter "periods", the period count the minimum of "periods" (the thresholds keep
  their values), and the format is the first format, in the order of the scan that
  starts at the signed 16-bit format, whose bit width is the minimum of the sample
  bits, and the signed 16-bit format when no format of the scan has that width. For
  rate [8000, 48000], channels [1, 4], periods [2, 8], bits [16, 24] and a 16-bit wide
  \<^verbatim>\<open>PCM_FORMAT_S16_LE\<close> the result is rate 8000, 1 channel, period size 8, period count
  2, \<^verbatim>\<open>PCM_FORMAT_S16_LE\<close>.
\<close>

theorem read_alsa_device_config_resolves:
  assumes "0 \<le> card_no" and "0 \<le> device"
    and "pcm_params_get pf card_no device io_type = Some caps"
  shows "fst (read_alsa_device_config pf card_no device io_type config) = OK \<and>
         channels (snd (read_alsa_device_config pf card_no device io_type config)) =
           pcm_params_get_min caps PCM_PARAM_CHANNELS \<and>
         rate (snd (read_alsa_device_config pf card_no device io_type config)) =
           pcm_params_get_min caps PCM_PARAM_RATE \<and>
         period_size (snd (read_alsa_device_config pf card_no device io_type config)) =
           pcm_params_get_max caps PCM_PARAM_PERIODS \<and>
         period_count (snd (read_alsa_device_config pf card_no device io_type config)) =
           pcm_params_get_min caps PCM_PARAM_PERIODS \<and>
         start_threshold (snd (read_alsa_device_config pf card_no device io_type config)) =
           start_threshold config \<and>
         stop_threshold (snd (read_alsa_device_config pf card_no device io_type config)) =
           stop_threshold config \<and>
         (\<forall>k < length (PCM_FORMAT_S16_LE # pcm_formats_after_S16_LE pf).
            pcm_format_to_bits pf ((PCM_FORMAT_S16_LE # pcm_formats_after_S16_LE pf) ! k) =
              pcm_params_get_min caps PCM_PARAM_SAMPLE_BITS \<and>
            (\<forall>j<k. pcm_format_to_bits pf ((PCM_FORMAT_S16_LE # pcm_formats_after_S16_LE pf) ! j) \<noteq>
                     pcm_params_get_min caps PCM_PARAM_SAMPLE_BITS) \<longrightarrow>
            pcm_config.format (snd (read_alsa_device_config pf card_no device io_type config)) =
              (PCM_FORMAT_S16_LE # pcm_formats_after_S16_LE pf) ! k) \<and>
         ((\<forall>f \<in> set (PCM_FORMAT_S16_LE # pcm_formats_after_S16_LE pf).
             pcm_format_to_bits pf f \<noteq> pcm_params_get_min caps PCM_PARAM_SAMPLE_BITS) \<longrightarrow>
            pcm_config.format (snd (read_alsa_device_config pf card_no device io_type config)) =
              PCM_FORMAT_S16_LE) \<and>
         (caps PCM_PARAM_RATE = (8000, 48000) \<and> caps PCM_PARAM_CHANNELS = (1, 4) \<and>
          caps PCM_PARAM_PERIODS = (2, 8) \<and> caps PCM_PARAM_SAMPLE_BITS = (16, 24) \<and>
          pcm_format_to_bits pf PCM_FORMAT_S16_LE = 16 \<longrightarrow>
            snd (read_alsa_device_config pf card_no device io_type config) =
              config\<lparr> channels := 1, rate := 8000, period_size := 8, period_count := 2,
                      pcm_config.format := PCM_FORMAT_S16_LE \<rparr>)"
proof -
  note r = read_alsa_device_config_ok[OF assms, of config]
  have first: "pcm_config.format (snd (read_alsa_device_config pf card_no device io_type config)) =
                 (PCM_FORMAT_S16_LE # pcm_formats_after_S16_LE pf) ! k"
    if "k < length (PCM_FORMAT_S16_LE # pcm_formats_after_S16_LE pf)"
      "pcm_format_to_bits pf ((PCM_FORMAT_S16_LE # pcm_formats_after_S16_LE pf) ! k) =
         pcm_params_get_min caps PCM_PARAM_SAMPLE_BITS"
      "\<forall>j<k. pcm_format_to_bits pf ((PCM_FORMAT_S16_LE # pcm_formats_after_S16_LE pf) ! j) \<noteq>
              pcm_params_get_min caps PCM_PARAM_SAMPLE_BITS" for k
    unfolding r bits_to_alsa_format_def
    using bits_to_alsa_format_first[OF that] by simp
  have none: "pcm_config.format (snd (read_alsa_device_config pf card_no device io_type config)) =
                PCM_FORMAT_S16_LE"
    if "\<forall>f \<in> set (PCM_FORMAT_S16_LE # pcm_formats_after_S16_LE pf).
          pcm_format_to_bits pf f \<noteq> pcm_params_get_min caps PCM_PARAM_SAMPLE_BITS"
    unfolding r bits_to_alsa_format_def
    using bits_to_alsa_format_none[OF that] by simp
  have example: "snd (read_alsa_device_config pf card_no device io_type config) =
              config\<lparr> channels := 1, rate := 8000, period_size := 8, period_count := 2,
                      pcm_config.format := PCM_FORMAT_S16_LE \<rparr>"
    if "caps PCM_PARAM_RATE = (8000, 48000)" "caps PCM_PARAM_CHANNELS = (1, 4)"
      "caps PCM_PARAM_PERIODS = (2, 8)" "caps PCM_PARAM_SAMPLE_BITS = (16, 24)"
      "pcm_format_to_bits pf PCM_FORMAT_S16_LE = 16"
    unfolding r using that
    by (simp add: pcm_params_get_min_def pcm_params_get_max_def bits_to_alsa_format_def)
  show ?thesis
    using first none example by (simp add: r)
qed

theorem read_alsa_device_config_resolves_witness:
  "read_alsa_device_config example_platform 1 0 PCM_OUT default_alsa_out_config =
     (OK, \<lparr> channels = 1, rate = 8000, period_size = 8, period_count = 2,
            pcm_config.format = PCM_FORMAT_S16_LE, start_threshold = 0, stop_threshold = 0 \<rparr>)"
proof -
  have h: "(0::int) \<le> 1" "(0::int) \<le> 0"
    "pcm_params_get example_platform 1 0 PCM_OUT = Some example_params"
    by (simp_all add: example_platform_def)
  note t = read_alsa_device_config_resolves[OF h, of default_alsa_out_config]
  have caps: "example_params PCM_PARAM_RATE = (8000, 48000) \<and>
              example_params PCM_PARAM_CHANNELS = (1, 4) \<and>
              example_params PCM_PARAM_PERIODS = (2, 8) \<and>
              example_params PCM_PARAM_SAMPLE_BITS = (16, 24) \<and>
              pcm_format_to_bits example_platform PCM_FORMAT_S16_LE = 16"
    by (simp add: example_params_def example_platform_def example_bits_def)
  from t have "fst (read_alsa_device_config example_platform 1 0 PCM_OUT default_alsa_out_config) = OK"
    by blast
  moreover from t caps
  have "snd (read_alsa_device_config example_platform 1 0 PCM_OUT default_alsa_out_config) =
          default_alsa_out_config\<lparr> channels := 1, rate := 8000, period_size := 8, period_count := 2,
                      pcm_config.format := PCM_FORMAT_S16_LE \<rparr>"
    by blast
  ultimately show ?thesis
    by (simp add: prod_eq_iff default_alsa_out_config_def)
qed

text \<open>
  Claim C7, as stated, is false: the two failures of \<^verbatim>\<open>read_alsa_device_config\<close> are
  not distinct. A negative card and a device without a capability set both give
  \<^verbatim>\<open>-EINVAL\<close>.
\<close>

theorem read_alsa_device_config_errors_not_distinct:
  "fst (read_alsa_device_config example_platform (- 1) 0 PCM_OUT default_alsa_out_config) =
     Error EINVAL \<and>
   fst (read_alsa_device_config unplugged_platform 1 0 PCM_OUT default_alsa_out_config) =
     Error EINVAL \<and>
   \<not> (fst (read_alsa_device_config example_platform (- 1) 0 PCM_OUT default_alsa_out_config) \<noteq>
      fst (read_alsa_device_config unplugged_platform 1 0 PCM_OUT default_alsa_out_config))"
  by (simp add: read_alsa_device_config_def unplugged_platform_def example_platform_def)

text \<open>
  Claim C7, amended. \<^verbatim>\<open>read_alsa_device_config\<close> fails with \<^verbatim>\<open>-EINVAL\<close> when the card
  or the device is negative, and with the same \<^verbatim>\<open>-EINVAL\<close> when the coordinates are
  non-negative and the transport reports no capability set; on both failure paths the
  configuration record is left as it was.
\<close>

theorem read_alsa_device_config_fails:
  "(card_no < 0 \<or> device < 0 \<longrightarrow>
      read_alsa_device_config pf card_no device io_type config = (Error EINVAL, config)) \<and>
   (0 \<le> card_no \<and> 0 \<le> device \<and> pcm_params_get pf card_no device io_type = None \<longrightarrow>
      read_alsa_device_config pf card_no device io_type config = (Error EINVAL, config))"
  by (auto simp add: read_alsa_device_config_def)

theorem read_alsa_device_config_fails_witness:
  "read_alsa_device_config example_platform (- 1) 0 PCM_IN default_alsa_in_config =
     (Error EINVAL, default_alsa_in_config) \<and>
   read_alsa_device_config example_platform 0 (- 1) PCM_IN default_alsa_in_config =
     (Error EINVAL, default_alsa_in_config) \<and>
   read_alsa_device_config unplugged_platform 1 0 PCM_IN default_alsa_in_config =
     (Error EINVAL, default_alsa_in_config)"
proof -
  have a: "(- 1 :: int) < 0 \<or> (0 :: int) < 0" by simp
  have b: "(0 :: int) < 0 \<or> (- 1 :: int) < 0" by simp
  have c: "(0::int) \<le> 1 \<and> (0::int) \<le> 0 \<and> pcm_params_get unplugged_platform 1 0 PCM_IN = None"
    by (simp add: unplugged_platform_def)
  show ?thesis
    using read_alsa_device_config_fails[of "- 1" 0 example_platform PCM_IN default_alsa_in_config]
      read_alsa_device_config_fails[of 0 "- 1" example_platform PCM_IN default_alsa_in_config]
      read_alsa_device_config_fails[of 1 0 unplugged_platform PCM_IN default_alsa_in_config]
      a b c
    by blast
qed

subsection \<open>Opening an output stream and the configuration cache\<close>

lemma adev_open_output_stream_state:
  "fst (adev_open_output_stream pf h config) =
     (if \<not> output_hardware_config_is_cached h \<and> calloc_succeeds pf
      then h\<lparr> cached_output_hardware_config := default_alsa_out_config \<rparr> else h)"
  by (simp add: adev_open_output_stream_def Let_def)

text \<open>
  Claim C10. \<^verbatim>\<open>adev_open_output_stream\<close> changes the cache only when the validity flag
  is false: when the flag is true, the cached configuration and the flag are left as
  they were; when the flag is false and the stream object is allocated, the cached
  configuration becomes the default output configuration (2 channels, 44100 Hz,
  \<^verbatim>\<open>PCM_FORMAT_S16_LE\<close>, period size 1024, period count 4) and the flag stays false.
  Nothing else of the state changes, and a call that fails to allocate the stream
  changes nothing.
\<close>

theorem adev_open_output_stream_cache:
  "(output_hardware_config_is_cached h \<longrightarrow>
      cached_output_hardware_config (fst (adev_open_output_stream pf h config)) =
        cached_output_hardware_config h \<and>
      output_hardware_config_is_cached (fst (adev_open_output_stream pf h config))) \<and>
   (\<not> output_hardware_config_is_cached h \<and> calloc_succeeds pf \<longrightarrow>
      cached_output_hardware_config (fst (adev_open_output_stream pf h config)) =
        default_alsa_out_config \<and>
      \<not> output_hardware_config_is_cached (fst (adev_open_output_stream pf h config))) \<and>
   (cached_output_hardware_config (fst (adev_open_output_stream pf h config)) \<noteq>
      cached_output_hardware_config h \<longrightarrow> \<not> output_hardware_config_is_cached h) \<and>
   output_hardware_config_is_cached (fst (adev_open_output_stream pf h config)) =
     output_hardware_config_is_cached h \<and>
   (\<not> calloc_succeeds pf \<longrightarrow> fst (adev_open_output_stream pf h config) = h) \<and>
   adev (fst (adev_open_output_stream pf h config)) = adev h \<and>
   mem (fst (adev_open_output_stream pf h config)) = mem h \<and>
   trace (fst (adev_open_output_stream pf h config)) = trace h \<and>
   channels default_alsa_out_config = 2 \<and> rate default_alsa_out_config = 44100 \<and>
   pcm_config.format default_alsa_out_config = PCM_FORMAT_S16_LE \<and>
   period_size default_alsa_out_config = 1024 \<and> period_count default_alsa_out_config = 4"
  by (simp add: adev_open_output_stream_state default_alsa_out_config_def)

theorem adev_open_output_stream_cache_witness:
  "cached_output_hardware_config
     (fst (adev_open_output_stream example_platform example_hal_quad example_audio_config)) =
     default_alsa_out_config \<and>
   \<not> output_hardware_config_is_cached
     (fst (adev_open_output_stream example_platform example_hal_quad example_audio_config)) \<and>
   cached_output_hardware_config
     (fst (adev_open_output_stream example_platform example_hal_quad_cached example_audio_config)) =
     cached_output_hardware_config example_hal_quad_cached \<and>
   output_hardware_config_is_cached
     (fst (adev_open_output_stream example_platform example_hal_quad_cached example_audio_config)) \<and>
   channels (cached_output_hardware_config example_hal_quad_cached) = 4 \<and>
   fst (adev_open_output_stream exhausted_platform example_hal_quad example_audio_config) =
     example_hal_quad"
proof -
  have a: "\<not> output_hardware_config_is_cached example_hal_quad \<and> calloc_succeeds example_platform"
    by (simp add: example_hal_quad_def example_hal_def example_platform_def)
  have b: "output_hardware_config_is_cached example_hal_quad_cached"
    by (simp add: example_hal_quad_cached_def)
  have c: "\<not> calloc_succeeds exhausted_platform"
    by (simp add: exhausted_platform_def)
  have d: "channels (cached_output_hardware_config example_hal_quad_cached) = 4"
    by (simp add: example_hal_quad_cached_def example_hal_quad_def)
  from a adev_open_output_stream_cache[of example_hal_quad example_platform example_audio_config]
  have w1: "cached_output_hardware_config
              (fst (adev_open_output_stream example_platform example_hal_quad example_audio_config)) =
              default_alsa_out_config \<and>
            \<not> output_hardware_config_is_cached
              (fst (adev_open_output_stream example_platform example_hal_quad example_audio_config))"
    by blast
  from b adev_open_output_stream_cache[of example_hal_quad_cached example_platform example_audio_config]
  have w2: "cached_output_hardware_config
              (fst (adev_open_output_stream example_platform example_hal_quad_cached example_audio_config)) =
              cached_output_hardware_config example_hal_quad_cached \<and>
            output_hardware_config_is_cached
              (fst (adev_open_output_stream example_platform example_hal_quad_cached example_audio_config))"
    by blast
  from c adev_open_output_stream_cache[of example_hal_quad exhausted_platform example_audio_config]
  have w3: "fst (adev_open_output_stream exhausted_platform example_hal_quad example_audio_config) =
              example_hal_quad"
    by blast
  show ?thesis
    using w1 w2 w3 d by blast
qed

subsection \<open>Reading from an input stream\<close>

text \<open>
  Claim C8 (amended). \<^verbatim>\<open>in_read\<close> calls \<^verbatim>\<open>pcm_read\<close> once, with the stream's handle,
  the caller's buffer and the byte count converted to the \<^verbatim>\<open>unsigned int\<close> that
  \<^verbatim>\<open>pcm_read\<close> takes: \<open>bytes mod 2 ^ 32\<close>, which is the caller's byte count when
  that is below \<open>2 ^ 32\<close>. On a target whose \<^verbatim>\<open>size_t\<close> has \<open>W \<ge> 32\<close> bits it
  returns, for a byte count below \<open>2 ^ (W - 1)\<close>, the byte count when the error code is
  zero, and 0 for any byte count when it is not. It changes nothing of the stream
  object: the only changes of the state are the one call in the trace and what
  \<^verbatim>\<open>pcm_read\<close> did to the memory.
\<close>

theorem in_read_delegates:
  assumes "32 \<le> size_t_bits pf"
  shows
  "(fst (pcm_read pf (stream_in.pcm in_stream) buf (bytes mod 2 ^ 32) (mem h)) = 0 \<and>
    bytes < 2 ^ (size_t_bits pf - 1) \<longrightarrow>
      snd (in_read pf (h, in_stream) buf bytes) = int bytes) \<and>
   (fst (pcm_read pf (stream_in.pcm in_stream) buf (bytes mod 2 ^ 32) (mem h)) \<noteq> 0 \<longrightarrow>
      snd (in_read pf (h, in_stream) buf bytes) = 0) \<and>
   trace (fst (fst (in_read pf (h, in_stream) buf bytes))) =
     trace h @ [Pcm_read (stream_in.pcm in_stream) buf (bytes mod 2 ^ 32)] \<and>
   (bytes < 2 ^ 32 \<longrightarrow>
      trace (fst (fst (in_read pf (h, in_stream) buf bytes))) =
        trace h @ [Pcm_read (stream_in.pcm in_stream) buf bytes]) \<and>
   mem (fst (fst (in_read pf (h, in_stream) buf bytes))) =
     snd (pcm_read pf (stream_in.pcm in_stream) buf (bytes mod 2 ^ 32) (mem h)) \<and>
   snd (fst (in_read pf (h, in_stream) buf bytes)) = in_stream \<and>
   adev (fst (fst (in_read pf (h, in_stream) buf bytes))) = adev h \<and>
   cached_output_hardware_config (fst (fst (in_read pf (h, in_stream) buf bytes))) =
     cached_output_hardware_config h \<and>
   output_hardware_config_is_cached (fst (fst (in_read pf (h, in_stream) buf bytes))) =
     output_hardware_config_is_cached h"
proof -
  have W: "1 \<le> size_t_bits pf" using assms by simp
  have c: "to_unsigned_int (int bytes) = bytes mod 2 ^ 32"
    by (simp add: to_unsigned_int_def nat_mod_distrib)
  show ?thesis
    by (simp add: in_read_def Let_def split_beta c to_ssize_t_id[OF W] to_ssize_t_zero[OF W])
qed

theorem in_read_delegates_witness:
  "snd (in_read example_platform (example_hal, example_stream_in) 100 4) = 4 \<and>
   snd (in_read unplugged_platform (example_hal, example_stream_in) 100 4) = 0 \<and>
   trace (fst (fst (in_read example_platform (example_hal, example_stream_in) 100 4))) =
     [Pcm_read (stream_in.pcm example_stream_in) 100 4]"
proof -
  have w: "32 \<le> size_t_bits example_platform" "32 \<le> size_t_bits unplugged_platform"
    by (simp_all add: example_platform_def unplugged_platform_def)
  have a: "fst (pcm_read example_platform (stream_in.pcm example_stream_in) 100 (4 mod 2 ^ 32)
                  (mem example_hal)) = 0"
    by (simp add: example_platform_def)
  have b: "fst (pcm_read unplugged_platform (stream_in.pcm example_stream_in) 100 (4 mod 2 ^ 32)
                  (mem example_hal)) \<noteq> 0"
    by (simp add: unplugged_platform_def)
  have c: "trace example_hal = []" by (simp add: example_hal_def)
  have d: "(4::nat) < 2 ^ (size_t_bits example_platform - 1)" "(4::nat) < 2 ^ 32"
    by (simp_all add: example_platform_def)
  note t1 = in_read_delegates[OF w(1), of example_stream_in 100 4 example_hal]
  note t2 = in_read_delegates[OF w(2), of example_stream_in 100 4 example_hal]
  have r1: "snd (in_read example_platform (example_hal, example_stream_in) 100 4) = 4"
    using t1 a d(1) by simp
  have r2: "snd (in_read unplugged_platform (example_hal, example_stream_in) 100 4) = 0"
    using t2 b by blast
  have r3: "trace (fst (fst (in_read example_platform (example_hal, example_stream_in) 100 4))) =
     [Pcm_read (stream_in.pcm example_stream_in) 100 4]"
    using t1 d(2) c by simp
  show ?thesis using r1 r2 r3 by simp
qed

text \<open>
  Claim C8 as stated, for every byte count, fails in its two parts. On a target with a
  64-bit \<^verbatim>\<open>size_t\<close>, a read of \<open>2 ^ 32 + 4\<close> bytes asks the transport for 4 bytes,
  not for the caller's byte count. On a target with a 32-bit \<^verbatim>\<open>size_t\<close>, a read of
  \<open>2 ^ 31\<close> bytes that the transport reports as done returns \<open>- 2 ^ 31\<close>, the value
  of that byte count as an \<^verbatim>\<open>ssize_t\<close>.
\<close>

theorem in_read_truncates_count:
  "trace (fst (fst (in_read example_platform (example_hal, example_stream_in) 100 4294967300))) =
     [Pcm_read None 100 4] \<and>
   snd (in_read example_platform (example_hal, example_stream_in) 100 4294967300) = 4294967300 \<and>
   snd (in_read example_platform32 (example_hal, example_stream_in) 100 2147483648) = - 2147483648"
  by (simp add: in_read_def Let_def split_beta example_platform_def example_platform32_def
      example_hal_def example_stream_in_def adev_open_input_stream_def to_unsigned_int_def
      to_ssize_t_def)

subsection \<open>The handle of an input stream\<close>

lemma adev_open_input_stream_pcm:
  "adev_open_input_stream pf hal_config = (cfg, Some in_stream, st) \<Longrightarrow>
   stream_in.pcm in_stream = None"
  by (auto simp add: adev_open_input_stream_def Let_def split: if_splits)

lemma in_call_step_pcm:
  "stream_in.pcm (snd (in_call_step pf c s)) = stream_in.pcm (snd s)"
  by (cases c)
     (simp_all add: in_standby_def in_set_parameters_def in_read_def Let_def split_beta)

lemma in_action_step_pcm:
  "stream_in.pcm (snd (in_action_step a s)) = stream_in.pcm (snd s)"
  by (cases a) (simp_all add: in_call_step_pcm)

lemma in_run_pcm:
  "stream_in.pcm (snd (in_run acts s)) = stream_in.pcm (snd s)"
  by (induction acts arbitrary: s) (simp_all add: in_action_step_pcm)

lemma in_read_trace:
  "trace (fst (fst (in_read pf s buf bytes))) =
     trace (fst s) @ [Pcm_read (stream_in.pcm (snd s)) buf (to_unsigned_int (int bytes))]"
  by (simp add: in_read_def Let_def split_beta)

text \<open>
  Claim C9. The handle of an input stream is null in every state the stream can reach:
  \<^verbatim>\<open>adev_open_input_stream\<close> makes the stream with a null handle, and after any run of
  input-stream operations (with any answers of the platform, and any changes of the
  state outside the stream in between) the handle is still null, so a call of
  \<^verbatim>\<open>in_read\<close> in that state passes the null handle to \<^verbatim>\<open>pcm_read\<close>, with the
  caller's buffer and the byte count as \<^verbatim>\<open>pcm_read\<close>'s \<^verbatim>\<open>unsigned int\<close> (the
  caller's byte count when that is below \<open>2 ^ 32\<close>).
\<close>

theorem stream_in_pcm_always_null:
  assumes "adev_open_input_stream pf0 hal_config = (cfg, Some in_stream, st)"
  shows "stream_in.pcm in_stream = None \<and>
         stream_in.pcm (snd (in_run acts (h, in_stream))) = None \<and>
         trace (fst (fst (in_read pf (in_run acts (h, in_stream)) buf bytes))) =
           trace (fst (in_run acts (h, in_stream))) @
             [Pcm_read None buf (to_unsigned_int (int bytes))] \<and>
         (bytes < 2 ^ 32 \<longrightarrow>
            trace (fst (fst (in_read pf (in_run acts (h, in_stream)) buf bytes))) =
              trace (fst (in_run acts (h, in_stream))) @ [Pcm_read None buf bytes])"
  using adev_open_input_stream_pcm[OF assms]
  by (simp add: in_run_pcm in_read_trace to_unsigned_int_def)

theorem stream_in_pcm_always_null_witness:
  "stream_in.pcm example_stream_in = None \<and>
   stream_in.pcm
     (snd (in_run [Call example_platform (In_set_parameters (\<lambda>k. Some 2)),
                   Call example_platform In_standby,
                   Call example_platform (In_read 100 4)]
             (example_hal, example_stream_in))) = None \<and>
   trace (fst (fst (in_read example_platform
     (in_run [Call example_platform (In_set_parameters (\<lambda>k. Some 2)),
              Call example_platform In_standby,
              Call example_platform (In_read 100 4)]
        (example_hal, example_stream_in)) 200 8))) =
     [Pcm_read None 100 4, Pcm_read None 200 8]"
proof -
  have o: "adev_open_input_stream example_platform example_audio_config =
             (fst (adev_open_input_stream example_platform example_audio_config),
              Some example_stream_in, OK)"
    by (simp add: example_stream_in_def adev_open_input_stream_def example_platform_def
        Let_def prod_eq_iff)
  note t = stream_in_pcm_always_null[OF o, of
      "[Call example_platform (In_set_parameters (\<lambda>k. Some 2)),
        Call example_platform In_standby,
        Call example_platform (In_read 100 4)]" example_hal example_platform 200 8]
  have null: "stream_in.pcm example_stream_in = None" using t by blast
  have tr: "trace (fst (in_run [Call example_platform (In_set_parameters (\<lambda>k. Some 2)),
              Call example_platform In_standby,
              Call example_platform (In_read 100 4)]
        (example_hal, example_stream_in))) = [Pcm_read None 100 4]"
    by (simp add: in_set_parameters_def in_standby_def in_read_def Let_def split_beta null
        example_hal_def to_unsigned_int_def)
  show ?thesis using t tr by (simp add: to_unsigned_int_def)
qed

subsection \<open>Starting an output stream and writing to it\<close>



lemma start_output_stream_ready:
  assumes "pcm_open pf (out_card (adev h)) (out_device (adev h)) PCM_OUT
             (cached_output_hardware_config h) = Some p"
    and "pcm_is_ready pf p"
  shows "start_output_stream pf (h, out) =
           ((h\<lparr> trace := trace h @
                    [Pcm_open (out_card (adev h)) (out_device (adev h)) PCM_OUT
                       (cached_output_hardware_config h),
                     Realloc (conversion_buffer out)
                       ((out_get_buffer_size pf h out * 3 * 2) mod 2 ^ size_t_bits pf div 2)] \<rparr>,
             out\<lparr> stream_out.pcm := Some p,
                  conversion_buffer_size :=
                    (out_get_buffer_size pf h out * 3 * 2) mod 2 ^ size_t_bits pf div 2,
                  conversion_buffer :=
                    realloc pf (conversion_buffer out)
                      ((out_get_buffer_size pf h out * 3 * 2) mod 2 ^ size_t_bits pf div 2) \<rparr>), OK)"
  using assms
  by (simp add: start_output_stream_def Let_def out_get_buffer_size_def out_get_channels_def
      out_get_format_def)


lemma start_output_stream_status:
  "snd (start_output_stream pf (h, out)) = (if transport_opens pf h then OK else Error ENOMEM)"
  by (simp add: start_output_stream_def Let_def transport_opens_def split: option.splits)

lemma out_write_active:
  "\<not> stream_out.standby out \<Longrightarrow>
   out_write pf (h, out) buf bytes = out_write_convert pf (h, out) buf bytes"
  by (simp add: out_write_def)

lemma out_write_started:
  assumes "stream_out.standby out" and "transport_opens pf h"
  shows "out_write pf (h, out) buf bytes =
           out_write_convert pf
             (fst (fst (start_output_stream pf (h, out))),
              (snd (fst (start_output_stream pf (h, out))))\<lparr> stream_out.standby := False \<rparr>)
             buf bytes"
  using assms start_output_stream_status[of pf h out]
  by (simp add: out_write_def split_beta)



lemma example_stream_out_eq:
  "example_stream_out =
     \<lparr> stream_out.pcm = None, stream_out.standby = True, conversion_buffer = 0,
       conversion_buffer_size = 0 \<rparr>"
  by (simp add: example_stream_out_def adev_open_output_stream_def example_platform_def Let_def
      split_beta)

lemma out_write_channels_frame:
  assumes "out_write_channels W ok h out wb n = Some (h1, wb1, n1)"
  shows "trace h1 = trace h \<and>
         cached_output_hardware_config h1 = cached_output_hardware_config h \<and>
         adev h1 = adev h \<and>
         output_hardware_config_is_cached h1 = output_hardware_config_is_cached h"
  using assms
  by (auto simp add: out_write_channels_def Let_def split: if_splits option.splits)

lemma out_write_format_frame:
  assumes "out_write_format W ok h out wb n = Some (h1, wb1, n1)"
  shows "trace h1 = trace h \<and>
         cached_output_hardware_config h1 = cached_output_hardware_config h \<and>
         adev h1 = adev h \<and>
         output_hardware_config_is_cached h1 = output_hardware_config_is_cached h"
  using assms
  by (cases "pcm_config.format (cached_output_hardware_config h)")
     (auto simp add: out_write_format_def Let_def split: option.splits)

lemma out_write_convert_cases:
  assumes "out_write_convert pf (h, out) buf bytes = Some ((h', out'), r)"
  shows "out' = out \<and> r = to_ssize_t (size_t_bits pf) (int bytes) \<and>
         cached_output_hardware_config h' = cached_output_hardware_config h \<and>
         adev h' = adev h \<and>
         output_hardware_config_is_cached h' = output_hardware_config_is_cached h \<and>
         (trace h' = trace h \<or>
          (\<exists>p n. trace h' = trace h @ [Pcm_write (stream_out.pcm out) p n]))"
proof -
  from assms obtain h1 wb1 n1 h2 wb2 n2 where
    c: "out_write_channels (size_t_bits pf) (out_write_ok out buf bytes) h out buf
          (to_int (int bytes)) = Some (h1, wb1, n1)"
    and f: "out_write_format (size_t_bits pf) (out_write_ok out buf bytes) h1 out wb1 n1 =
          Some (h2, wb2, n2)"
    and r: "((if wb2 \<noteq> 0 \<and> n2 \<noteq> 0 then
               h2\<lparr> trace := trace h2 @ [Pcm_write (stream_out.pcm out) wb2 (to_unsigned_int n2)] \<rparr>
             else h2, out), to_ssize_t (size_t_bits pf) (int bytes)) = ((h', out'), r)"
    by (auto simp add: out_write_convert_def Let_def split: option.splits)
  note cf = out_write_channels_frame[OF c]
  note ff = out_write_format_frame[OF f]
  show ?thesis
    using r cf ff by (cases "wb2 \<noteq> 0 \<and> n2 \<noteq> 0") auto
qed

lemma out_write_convert_plain:
  assumes "channels (cached_output_hardware_config h) \<noteq> 4"
    and "pcm_config.format (cached_output_hardware_config h) \<noteq> PCM_FORMAT_S24_3LE"
  shows "out_write_convert pf (h, out) buf bytes =
           Some ((if buf \<noteq> 0 \<and> to_int (int bytes) \<noteq> 0 then
                    h\<lparr> trace := trace h @ [Pcm_write (stream_out.pcm out) buf
                                            (to_unsigned_int (to_int (int bytes)))] \<rparr>
                  else h, out), to_ssize_t (size_t_bits pf) (int bytes))"
  using assms
  by (cases "pcm_config.format (cached_output_hardware_config h)")
     (simp_all add: out_write_convert_def out_write_channels_def out_write_format_def Let_def)

lemma half_bytes:
  assumes "32 \<le> W" "int k \<le> INT_MAX"
  shows "to_size_t W (int_div (to_int (int k)) 2) = k div 2"
proof -
  have a: "to_int (int k) = int k" using assms(2) by (simp add: to_int_id int_ok_def INT_MAX_def)
  have b: "int_div (int k) 2 = int (k div 2)" by (simp add: int_div_2 zdiv_int)
  have c: "int (k div 2) \<le> INT_MAX" using assms(2) by (simp add: INT_MAX_def) 
  show ?thesis unfolding a b using to_size_t_id[OF assms(1) _ c] by simp
qed

lemma out_write_channels_other:
  "channels (cached_output_hardware_config h) \<noteq> 4 \<Longrightarrow>
   out_write_channels W ok h out wb n = Some (h, wb, n)"
  by (simp add: out_write_channels_def)

lemma out_write_channels_quad:
  assumes ch: "channels (cached_output_hardware_config h) = 4"
    and W: "32 \<le> W" and b: "int bytes \<le> INT_MAX"
    and run: "convert_2chan16_to_4chan16 W ok (mem h) buf (bytes div 2) (conversion_buffer out) =
                Some (m1, r)"
  shows "out_write_channels W ok h out buf (to_int (int bytes)) =
           Some (h\<lparr> mem := m1 \<rparr>, conversion_buffer out, to_int (int r))"
  using ch run by (simp add: out_write_channels_def half_bytes[OF W b])

lemma out_write_format_other:
  "pcm_config.format (cached_output_hardware_config h) \<noteq> PCM_FORMAT_S24_3LE \<Longrightarrow>
   out_write_format W ok h out wb n = Some (h, wb, n)"
  by (cases "pcm_config.format (cached_output_hardware_config h)")
     (simp_all add: out_write_format_def)

lemma out_write_format_s24_3le:
  assumes fm: "pcm_config.format (cached_output_hardware_config h) = PCM_FORMAT_S24_3LE"
    and W: "32 \<le> W" and b: "int k \<le> INT_MAX"
    and run: "convert_16_to_24_3 W ok (mem h) wb (k div 2) (conversion_buffer out) = Some (m2, r)"
  shows "out_write_format W ok h out wb (to_int (int k)) =
           Some (h\<lparr> mem := m2 \<rparr>, conversion_buffer out, to_int (int r))"
  using fm run by (simp add: out_write_format_def half_bytes[OF W b])


lemma out_write_convert_returns:
  assumes W: "32 \<le> size_t_bits pf"
    and whole: "bytes mod 4 = 0" and bound: "6 * int bytes \<le> INT_MAX"
    and cb: "conversion_buffer out \<noteq> 0"
    and room: "3 * bytes \<le> conversion_buffer_size out"
  shows "\<exists>h'. out_write_convert pf (h, out) buf bytes =
                Some ((h', out), to_ssize_t (size_t_bits pf) (int bytes))"
proof -
  define ok where "ok = out_write_ok out buf bytes"
  define cbuf where "cbuf = conversion_buffer out"
  have acc_buf: "\<forall>a. buf \<le> a \<and> a < buf + int bytes \<longrightarrow> ok a"
    by (simp add: ok_def out_write_ok_def)
  have acc_cb: "\<forall>a. cbuf \<le> a \<and> a < cbuf + 3 * int bytes \<longrightarrow> ok a"
    using cb room by (auto simp add: ok_def out_write_ok_def cbuf_def)
  have b1: "int bytes \<le> INT_MAX" using bound by simp
  have b2: "int (2 * bytes) \<le> INT_MAX" using bound by simp
  have ev: "even (bytes div 2)" "2 * (bytes div 2) = bytes" "4 * (bytes div 2) = 2 * bytes"
    using whole by presburger+
  have "\<exists>h1 wb1 k1. out_write_channels (size_t_bits pf) ok h out buf (to_int (int bytes)) =
          Some (h1, wb1, to_int (int k1)) \<and>
          cached_output_hardware_config h1 = cached_output_hardware_config h \<and>
          int k1 \<le> INT_MAX \<and> 6 * int (k1 div 2) \<le> INT_MAX \<and>
          (\<forall>a. wb1 \<le> a \<and> a < wb1 + 2 * int (k1 div 2) \<longrightarrow> ok a) \<and>
          (\<forall>a. cbuf \<le> a \<and> a < cbuf + 3 * int (k1 div 2) \<longrightarrow> ok a)"
  proof (cases "channels (cached_output_hardware_config h) = 4")
    case True
    have bb: "4 * int (bytes div 2) \<le> INT_MAX" using bound ev(3) by (simp add: INT_MAX_def)
    have i: "\<forall>a. buf \<le> a \<and> a < buf + 2 * int (bytes div 2) \<longrightarrow> ok a"
      using acc_buf ev(2) by (metis of_nat_mult of_nat_numeral)
    have o: "\<forall>a. cbuf \<le> a \<and> a < cbuf + 4 * int (bytes div 2) \<longrightarrow> ok a"
      using acc_cb ev(3) by (simp add: INT_MAX_def)
    from convert_2chan16_to_4chan16_returns[OF W bb ev(1) i o, where m = "mem h"]
    obtain m1 where r: "convert_2chan16_to_4chan16 (size_t_bits pf) ok (mem h) buf (bytes div 2) cbuf =
                          Some (m1, 2 * bytes)"
      unfolding ev(3) by blast
    have c: "out_write_channels (size_t_bits pf) ok h out buf (to_int (int bytes)) =
               Some (h\<lparr> mem := m1 \<rparr>, cbuf, to_int (int (2 * bytes)))"
      using out_write_channels_quad[OF True W b1 r[unfolded cbuf_def]] by (simp add: cbuf_def)
    have d: "2 * bytes div 2 = bytes" by simp
    show ?thesis
      apply (rule exI[of _ "h\<lparr> mem := m1 \<rparr>"], rule exI[of _ cbuf], rule exI[of _ "2 * bytes"])
      unfolding d using c b2 bound acc_cb by simp
  next
    case False
    have c: "out_write_channels (size_t_bits pf) ok h out buf (to_int (int bytes)) =
               Some (h, buf, to_int (int bytes))"
      by (rule out_write_channels_other[OF False])
    have s: "6 * int (bytes div 2) \<le> INT_MAX" using bound by simp
    have i: "\<forall>a. buf \<le> a \<and> a < buf + 2 * int (bytes div 2) \<longrightarrow> ok a"
      using acc_buf ev(2) by (metis of_nat_mult of_nat_numeral)
    have le: "3 * int (bytes div 2) \<le> 3 * int bytes" by simp
    have o: "\<forall>a. cbuf \<le> a \<and> a < cbuf + 3 * int (bytes div 2) \<longrightarrow> ok a"
    proof (intro allI impI)
      fix a assume a: "cbuf \<le> a \<and> a < cbuf + 3 * int (bytes div 2)"
      then have "cbuf \<le> a \<and> a < cbuf + 3 * int bytes" using le by linarith
      then show "ok a" using acc_cb by blast
    qed
    show ?thesis
      apply (rule exI[of _ h], rule exI[of _ buf], rule exI[of _ bytes])
      using c b1 s i o by simp
  qed
  then obtain h1 wb1 k1 where
    c: "out_write_channels (size_t_bits pf) ok h out buf (to_int (int bytes)) =
          Some (h1, wb1, to_int (int k1))"
    and cfg: "cached_output_hardware_config h1 = cached_output_hardware_config h"
    and k1: "int k1 \<le> INT_MAX" "6 * int (k1 div 2) \<le> INT_MAX"
    and i: "\<forall>a. wb1 \<le> a \<and> a < wb1 + 2 * int (k1 div 2) \<longrightarrow> ok a"
    and o: "\<forall>a. cbuf \<le> a \<and> a < cbuf + 3 * int (k1 div 2) \<longrightarrow> ok a"
    by blast
  have "\<exists>h2 wb2 n2. out_write_format (size_t_bits pf) ok h1 out wb1 (to_int (int k1)) =
          Some (h2, wb2, n2)"
  proof (cases "pcm_config.format (cached_output_hardware_config h1) = PCM_FORMAT_S24_3LE")
    case True
    from convert_16_to_24_3_returns[OF W k1(2) i o, where m = "mem h1"]
    obtain m2 where r: "convert_16_to_24_3 (size_t_bits pf) ok (mem h1) wb1 (k1 div 2) cbuf =
                          Some (m2, 3 * (k1 div 2))"
      by blast
    show ?thesis
      using out_write_format_s24_3le[OF True W k1(1) r[unfolded cbuf_def]] by blast
  next
    case False
    show ?thesis using out_write_format_other[OF False] by blast
  qed
  then obtain h2 wb2 n2 where
    f: "out_write_format (size_t_bits pf) ok h1 out wb1 (to_int (int k1)) = Some (h2, wb2, n2)"
    by blast
  show ?thesis
    unfolding out_write_convert_def Let_def prod.case ok_def[symmetric] c option.case f
    by (cases "wb2 \<noteq> 0 \<and> n2 \<noteq> 0") auto
qed







subsection \<open>The life cycle of an output stream\<close>

lemma out_write_convert_filters:
  assumes "out_write_convert pf (h, out) buf bytes = Some ((h', out'), r)"
  shows "out' = out \<and> r = to_ssize_t (size_t_bits pf) (int bytes) \<and>
         cached_output_hardware_config h' = cached_output_hardware_config h \<and>
         filter is_open (trace h') = filter is_open (trace h) \<and>
         filter is_realloc (trace h') = filter is_realloc (trace h)"
  using out_write_convert_cases[OF assms] by auto

lemma out_standby_active:
  "\<not> stream_out.standby out \<Longrightarrow>
   out_standby (h, out) =
     ((h\<lparr> trace := trace h @ [Pcm_close (stream_out.pcm out)] \<rparr>,
       out\<lparr> stream_out.pcm := None, stream_out.standby := True \<rparr>), OK)"
  by (simp add: out_standby_def)

lemma out_standby_idle:
  "stream_out.standby out \<Longrightarrow> out_standby (h, out) = ((h, out), OK)"
  by (simp add: out_standby_def)

lemma out_standby_standby: "stream_out.standby (snd (fst (out_standby (h, out))))"
  by (simp add: out_standby_def)

lemma out_standby_idem:
  "out_standby (fst (out_standby (h, out))) = (fst (out_standby (h, out)), OK)"
  using out_standby_standby[of h out] out_standby_idle
  by (metis prod.collapse)

lemma out_write_first:
  assumes sb: "stream_out.standby out"
    and op: "pcm_open pf (out_card (adev h)) (out_device (adev h)) PCM_OUT
               (cached_output_hardware_config h) = Some p"
    and rd: "pcm_is_ready pf p"
  shows "out_write pf (h, out) buf bytes =
           out_write_convert pf
             (h\<lparr> trace := trace h @
                    [Pcm_open (out_card (adev h)) (out_device (adev h)) PCM_OUT
                       (cached_output_hardware_config h),
                     Realloc (conversion_buffer out)
                       ((out_get_buffer_size pf h out * 3 * 2) mod 2 ^ size_t_bits pf div 2)] \<rparr>,
              out\<lparr> stream_out.pcm := Some p,
                   conversion_buffer_size :=
                     (out_get_buffer_size pf h out * 3 * 2) mod 2 ^ size_t_bits pf div 2,
                   conversion_buffer :=
                     realloc pf (conversion_buffer out)
                       ((out_get_buffer_size pf h out * 3 * 2) mod 2 ^ size_t_bits pf div 2),
                   stream_out.standby := False \<rparr>)
             buf bytes"
proof -
  have opens: "transport_opens pf h" using op rd by (simp add: transport_opens_def)
  show ?thesis
    unfolding out_write_started[OF sb opens] start_output_stream_ready[OF op rd] by simp
qed

lemma out_write_again:
  assumes act: "\<not> stream_out.standby out"
    and run: "out_write pf (h, out) buf bytes = Some ((h1, out'), r)"
  shows "out' = out \<and> r = to_ssize_t (size_t_bits pf) (int bytes) \<and>
         cached_output_hardware_config h1 = cached_output_hardware_config h \<and>
         filter is_open (trace h1) = filter is_open (trace h) \<and>
         filter is_realloc (trace h1) = filter is_realloc (trace h)"
  using run unfolding out_write_active[OF act] by (rule out_write_convert_filters)

text \<open>
  Claim C6. A write to a stream in standby for which the transport opens makes the
  stream active before anything else: it calls \<^verbatim>\<open>pcm_open\<close> once, with the output
  card and device and the cached configuration, keeps the handle, and calls
  \<^verbatim>\<open>realloc\<close> once for the conversion buffer (three times the buffer size of the
  stream, computed in \<^verbatim>\<open>size_t\<close>); the rest of the call is the conversion and the
  write on that active stream. Every such write that returns leaves the stream active
  with that handle and that buffer, one more \<^verbatim>\<open>pcm_open\<close> and one more
  \<^verbatim>\<open>realloc\<close> in the trace. A write to an active stream, such as any later write to
  that stream, calls neither \<^verbatim>\<open>pcm_open\<close> nor \<^verbatim>\<open>realloc\<close> and leaves the stream
  object as it is. The writes return when the cached configuration asks for no
  conversion, and when the conversions are within the range of \<^verbatim>\<open>int\<close> and within
  the conversion buffer. \<^verbatim>\<open>out_standby\<close> on an active stream closes the handle,
  clears it and puts the stream in standby; on a stream in standby it does nothing;
  called twice it does what it does called once.
\<close>

theorem out_stream_lifecycle:
  "(stream_out.standby out \<and>
    pcm_open pf (out_card (adev h)) (out_device (adev h)) PCM_OUT
      (cached_output_hardware_config h) = Some p \<and> pcm_is_ready pf p \<longrightarrow>
      (\<exists>h0 out1.
         out_write pf (h, out) buf bytes = out_write_convert pf (h0, out1) buf bytes \<and>
         \<not> stream_out.standby out1 \<and>
         stream_out.pcm out1 = Some p \<and>
         conversion_buffer out1 =
           realloc pf (conversion_buffer out)
             ((out_get_buffer_size pf h out * 3 * 2) mod 2 ^ size_t_bits pf div 2) \<and>
         conversion_buffer_size out1 =
           (out_get_buffer_size pf h out * 3 * 2) mod 2 ^ size_t_bits pf div 2 \<and>
         filter is_open (trace h0) =
           filter is_open (trace h) @
             [Pcm_open (out_card (adev h)) (out_device (adev h)) PCM_OUT
                (cached_output_hardware_config h)] \<and>
         filter is_realloc (trace h0) =
           filter is_realloc (trace h) @
             [Realloc (conversion_buffer out)
                ((out_get_buffer_size pf h out * 3 * 2) mod 2 ^ size_t_bits pf div 2)] \<and>
         (\<forall>h1 out' r.
            out_write pf (h, out) buf bytes = Some ((h1, out'), r) \<longrightarrow>
              out' = out1 \<and> r = to_ssize_t (size_t_bits pf) (int bytes) \<and>
              cached_output_hardware_config h1 = cached_output_hardware_config h \<and>
              filter is_open (trace h1) =
                filter is_open (trace h) @
                  [Pcm_open (out_card (adev h)) (out_device (adev h)) PCM_OUT
                     (cached_output_hardware_config h)] \<and>
              filter is_realloc (trace h1) =
                filter is_realloc (trace h) @
                  [Realloc (conversion_buffer out)
                     ((out_get_buffer_size pf h out * 3 * 2) mod 2 ^ size_t_bits pf div 2)] \<and>
              (\<forall>pf' buf' bytes' h2 out2 r2.
                 out_write pf' (h1, out1) buf' bytes' = Some ((h2, out2), r2) \<longrightarrow>
                   out2 = out1 \<and> r2 = to_ssize_t (size_t_bits pf') (int bytes') \<and>
                   cached_output_hardware_config h2 = cached_output_hardware_config h1 \<and>
                   filter is_open (trace h2) = filter is_open (trace h1) \<and>
                   filter is_realloc (trace h2) = filter is_realloc (trace h1))) \<and>
         (channels (cached_output_hardware_config h) \<noteq> 4 \<and>
          pcm_config.format (cached_output_hardware_config h) \<noteq> PCM_FORMAT_S24_3LE \<longrightarrow>
            (\<exists>h1 r. out_write pf (h, out) buf bytes = Some ((h1, out1), r))) \<and>
         (32 \<le> size_t_bits pf \<and> bytes mod 4 = 0 \<and> 6 * int bytes \<le> INT_MAX \<and>
          conversion_buffer out1 \<noteq> 0 \<and> 3 * bytes \<le> conversion_buffer_size out1 \<longrightarrow>
            (\<exists>h1 r. out_write pf (h, out) buf bytes = Some ((h1, out1), r))))) \<and>
   (\<not> stream_out.standby out \<longrightarrow>
      (\<forall>h1 out' r.
         out_write pf (h, out) buf bytes = Some ((h1, out'), r) \<longrightarrow>
           out' = out \<and> r = to_ssize_t (size_t_bits pf) (int bytes) \<and>
           cached_output_hardware_config h1 = cached_output_hardware_config h \<and>
           filter is_open (trace h1) = filter is_open (trace h) \<and>
           filter is_realloc (trace h1) = filter is_realloc (trace h)) \<and>
      (channels (cached_output_hardware_config h) \<noteq> 4 \<and>
       pcm_config.format (cached_output_hardware_config h) \<noteq> PCM_FORMAT_S24_3LE \<longrightarrow>
         (\<exists>h1 r. out_write pf (h, out) buf bytes = Some ((h1, out), r))) \<and>
      (32 \<le> size_t_bits pf \<and> bytes mod 4 = 0 \<and> 6 * int bytes \<le> INT_MAX \<and>
       conversion_buffer out \<noteq> 0 \<and> 3 * bytes \<le> conversion_buffer_size out \<longrightarrow>
         (\<exists>h1 r. out_write pf (h, out) buf bytes = Some ((h1, out), r)))) \<and>
   (\<not> stream_out.standby out \<longrightarrow>
      out_standby (h, out) =
        ((h\<lparr> trace := trace h @ [Pcm_close (stream_out.pcm out)] \<rparr>,
          out\<lparr> stream_out.pcm := None, stream_out.standby := True \<rparr>), OK)) \<and>
   (stream_out.standby out \<longrightarrow> out_standby (h, out) = ((h, out), OK)) \<and>
   stream_out.standby (snd (fst (out_standby (h, out)))) \<and>
   out_standby (fst (out_standby (h, out))) = (fst (out_standby (h, out)), OK)"
proof -
  have active: "(\<forall>h1 out' r.
         out_write pf (h, out) buf bytes = Some ((h1, out'), r) \<longrightarrow>
           out' = out \<and> r = to_ssize_t (size_t_bits pf) (int bytes) \<and>
           cached_output_hardware_config h1 = cached_output_hardware_config h \<and>
           filter is_open (trace h1) = filter is_open (trace h) \<and>
           filter is_realloc (trace h1) = filter is_realloc (trace h)) \<and>
      (channels (cached_output_hardware_config h) \<noteq> 4 \<and>
       pcm_config.format (cached_output_hardware_config h) \<noteq> PCM_FORMAT_S24_3LE \<longrightarrow>
         (\<exists>h1 r. out_write pf (h, out) buf bytes = Some ((h1, out), r))) \<and>
      (32 \<le> size_t_bits pf \<and> bytes mod 4 = 0 \<and> 6 * int bytes \<le> INT_MAX \<and>
       conversion_buffer out \<noteq> 0 \<and> 3 * bytes \<le> conversion_buffer_size out \<longrightarrow>
         (\<exists>h1 r. out_write pf (h, out) buf bytes = Some ((h1, out), r)))"
    if act: "\<not> stream_out.standby out" for pf h out buf bytes
  proof (intro conjI allI impI)
    fix h1 out' r assume run: "out_write pf (h, out) buf bytes = Some ((h1, out'), r)"
    note x = out_write_again[OF act run]
    show "out' = out" using x by blast
    show "r = to_ssize_t (size_t_bits pf) (int bytes)" using x by blast
    show "cached_output_hardware_config h1 = cached_output_hardware_config h" using x by blast
    show "filter is_open (trace h1) = filter is_open (trace h)" using x by blast
    show "filter is_realloc (trace h1) = filter is_realloc (trace h)" using x by blast
  next
    assume a: "channels (cached_output_hardware_config h) \<noteq> 4 \<and>
       pcm_config.format (cached_output_hardware_config h) \<noteq> PCM_FORMAT_S24_3LE"
    show "\<exists>h1 r. out_write pf (h, out) buf bytes = Some ((h1, out), r)"
      unfolding out_write_active[OF act]
        out_write_convert_plain[OF a[THEN conjunct1] a[THEN conjunct2]] by blast
  next
    assume a: "32 \<le> size_t_bits pf \<and> bytes mod 4 = 0 \<and> 6 * int bytes \<le> INT_MAX \<and>
       conversion_buffer out \<noteq> 0 \<and> 3 * bytes \<le> conversion_buffer_size out"
    then have W: "32 \<le> size_t_bits pf" and whole: "bytes mod 4 = 0"
      and bound: "6 * int bytes \<le> INT_MAX" and cb: "conversion_buffer out \<noteq> 0"
      and room: "3 * bytes \<le> conversion_buffer_size out"
      by blast+
    show "\<exists>h1 r. out_write pf (h, out) buf bytes = Some ((h1, out), r)"
      unfolding out_write_active[OF act]
      using out_write_convert_returns[OF W whole bound cb room, of h buf] by blast
  qed
  have first: "\<exists>h0 out1.
         out_write pf (h, out) buf bytes = out_write_convert pf (h0, out1) buf bytes \<and>
         \<not> stream_out.standby out1 \<and>
         stream_out.pcm out1 = Some p \<and>
         conversion_buffer out1 =
           realloc pf (conversion_buffer out)
             ((out_get_buffer_size pf h out * 3 * 2) mod 2 ^ size_t_bits pf div 2) \<and>
         conversion_buffer_size out1 =
           (out_get_buffer_size pf h out * 3 * 2) mod 2 ^ size_t_bits pf div 2 \<and>
         filter is_open (trace h0) =
           filter is_open (trace h) @
             [Pcm_open (out_card (adev h)) (out_device (adev h)) PCM_OUT
                (cached_output_hardware_config h)] \<and>
         filter is_realloc (trace h0) =
           filter is_realloc (trace h) @
             [Realloc (conversion_buffer out)
                ((out_get_buffer_size pf h out * 3 * 2) mod 2 ^ size_t_bits pf div 2)] \<and>
         (\<forall>h1 out' r.
            out_write pf (h, out) buf bytes = Some ((h1, out'), r) \<longrightarrow>
              out' = out1 \<and> r = to_ssize_t (size_t_bits pf) (int bytes) \<and>
              cached_output_hardware_config h1 = cached_output_hardware_config h \<and>
              filter is_open (trace h1) =
                filter is_open (trace h) @
                  [Pcm_open (out_card (adev h)) (out_device (adev h)) PCM_OUT
                     (cached_output_hardware_config h)] \<and>
              filter is_realloc (trace h1) =
                filter is_realloc (trace h) @
                  [Realloc (conversion_buffer out)
                     ((out_get_buffer_size pf h out * 3 * 2) mod 2 ^ size_t_bits pf div 2)] \<and>
              (\<forall>pf' buf' bytes' h2 out2 r2.
                 out_write pf' (h1, out1) buf' bytes' = Some ((h2, out2), r2) \<longrightarrow>
                   out2 = out1 \<and> r2 = to_ssize_t (size_t_bits pf') (int bytes') \<and>
                   cached_output_hardware_config h2 = cached_output_hardware_config h1 \<and>
                   filter is_open (trace h2) = filter is_open (trace h1) \<and>
                   filter is_realloc (trace h2) = filter is_realloc (trace h1))) \<and>
         (channels (cached_output_hardware_config h) \<noteq> 4 \<and>
          pcm_config.format (cached_output_hardware_config h) \<noteq> PCM_FORMAT_S24_3LE \<longrightarrow>
            (\<exists>h1 r. out_write pf (h, out) buf bytes = Some ((h1, out1), r))) \<and>
         (32 \<le> size_t_bits pf \<and> bytes mod 4 = 0 \<and> 6 * int bytes \<le> INT_MAX \<and>
          conversion_buffer out1 \<noteq> 0 \<and> 3 * bytes \<le> conversion_buffer_size out1 \<longrightarrow>
            (\<exists>h1 r. out_write pf (h, out) buf bytes = Some ((h1, out1), r)))"
    if a: "stream_out.standby out \<and>
      pcm_open pf (out_card (adev h)) (out_device (adev h)) PCM_OUT
        (cached_output_hardware_config h) = Some p \<and> pcm_is_ready pf p"
  proof -
    define sz where "sz = (out_get_buffer_size pf h out * 3 * 2) mod 2 ^ size_t_bits pf div 2"
    define h0 where "h0 = h\<lparr> trace := trace h @
                    [Pcm_open (out_card (adev h)) (out_device (adev h)) PCM_OUT
                       (cached_output_hardware_config h),
                     Realloc (conversion_buffer out) sz] \<rparr>"
    define out1 where "out1 = out\<lparr> stream_out.pcm := Some p,
                   conversion_buffer_size := sz,
                   conversion_buffer := realloc pf (conversion_buffer out) sz,
                   stream_out.standby := False \<rparr>"
    have sb: "stream_out.standby out"
      and op: "pcm_open pf (out_card (adev h)) (out_device (adev h)) PCM_OUT
        (cached_output_hardware_config h) = Some p" and rd: "pcm_is_ready pf p"
      using a by blast+
    have e: "out_write pf (h, out) buf bytes = out_write_convert pf (h0, out1) buf bytes"
      using out_write_first[OF sb op rd, of buf bytes] unfolding h0_def out1_def sz_def .
    have act1: "\<not> stream_out.standby out1" by (simp add: out1_def)
    have f: "stream_out.pcm out1 = Some p"
      "conversion_buffer out1 = realloc pf (conversion_buffer out) sz"
      "conversion_buffer_size out1 = sz"
      by (simp_all add: out1_def)
    have t0: "filter is_open (trace h0) =
           filter is_open (trace h) @
             [Pcm_open (out_card (adev h)) (out_device (adev h)) PCM_OUT
                (cached_output_hardware_config h)]"
      "filter is_realloc (trace h0) =
           filter is_realloc (trace h) @ [Realloc (conversion_buffer out) sz]"
      by (simp_all add: h0_def)
    have cfg0: "cached_output_hardware_config h0 = cached_output_hardware_config h"
      by (simp add: h0_def)
    have returned: "out' = out1 \<and> r = to_ssize_t (size_t_bits pf) (int bytes) \<and>
              cached_output_hardware_config h1 = cached_output_hardware_config h \<and>
              filter is_open (trace h1) =
                filter is_open (trace h) @
                  [Pcm_open (out_card (adev h)) (out_device (adev h)) PCM_OUT
                     (cached_output_hardware_config h)] \<and>
              filter is_realloc (trace h1) =
                filter is_realloc (trace h) @ [Realloc (conversion_buffer out) sz] \<and>
              (\<forall>pf' buf' bytes' h2 out2 r2.
                 out_write pf' (h1, out1) buf' bytes' = Some ((h2, out2), r2) \<longrightarrow>
                   out2 = out1 \<and> r2 = to_ssize_t (size_t_bits pf') (int bytes') \<and>
                   cached_output_hardware_config h2 = cached_output_hardware_config h1 \<and>
                   filter is_open (trace h2) = filter is_open (trace h1) \<and>
                   filter is_realloc (trace h2) = filter is_realloc (trace h1))"
      if run: "out_write pf (h, out) buf bytes = Some ((h1, out'), r)" for h1 out' r
    proof -
      note x = out_write_convert_filters[OF run[unfolded e]]
      have later: "\<forall>pf' buf' bytes' h2 out2 r2.
                 out_write pf' (h1, out1) buf' bytes' = Some ((h2, out2), r2) \<longrightarrow>
                   out2 = out1 \<and> r2 = to_ssize_t (size_t_bits pf') (int bytes') \<and>
                   cached_output_hardware_config h2 = cached_output_hardware_config h1 \<and>
                   filter is_open (trace h2) = filter is_open (trace h1) \<and>
                   filter is_realloc (trace h2) = filter is_realloc (trace h1)"
        using active[OF act1] by blast
      show ?thesis using x t0 cfg0 later by simp
    qed
    have plain: "\<exists>h1 r. out_write pf (h, out) buf bytes = Some ((h1, out1), r)"
      if c: "channels (cached_output_hardware_config h) \<noteq> 4 \<and>
          pcm_config.format (cached_output_hardware_config h) \<noteq> PCM_FORMAT_S24_3LE"
    proof -
      have c0: "channels (cached_output_hardware_config h0) \<noteq> 4"
        "pcm_config.format (cached_output_hardware_config h0) \<noteq> PCM_FORMAT_S24_3LE"
        using c cfg0 by simp_all
      show ?thesis unfolding e out_write_convert_plain[OF c0] by blast
    qed
    have conv: "\<exists>h1 r. out_write pf (h, out) buf bytes = Some ((h1, out1), r)"
      if c: "32 \<le> size_t_bits pf \<and> bytes mod 4 = 0 \<and> 6 * int bytes \<le> INT_MAX \<and>
          conversion_buffer out1 \<noteq> 0 \<and> 3 * bytes \<le> conversion_buffer_size out1"
    proof -
      from c have W: "32 \<le> size_t_bits pf" and whole: "bytes mod 4 = 0"
        and bound: "6 * int bytes \<le> INT_MAX" and cb: "conversion_buffer out1 \<noteq> 0"
        and room: "3 * bytes \<le> conversion_buffer_size out1"
        by blast+
      show ?thesis
        unfolding e using out_write_convert_returns[OF W whole bound cb room, of h0 buf] by blast
    qed
    show ?thesis
      apply (rule exI[of _ h0], rule exI[of _ out1])
      unfolding sz_def[symmetric]
      using e act1 f t0 returned plain conv by blast
  qed
  have c1: "stream_out.standby out \<and>
      pcm_open pf (out_card (adev h)) (out_device (adev h)) PCM_OUT
        (cached_output_hardware_config h) = Some p \<and> pcm_is_ready pf p \<longrightarrow>
      (\<exists>h0 out1.
         out_write pf (h, out) buf bytes = out_write_convert pf (h0, out1) buf bytes \<and>
         \<not> stream_out.standby out1 \<and>
         stream_out.pcm out1 = Some p \<and>
         conversion_buffer out1 =
           realloc pf (conversion_buffer out)
             ((out_get_buffer_size pf h out * 3 * 2) mod 2 ^ size_t_bits pf div 2) \<and>
         conversion_buffer_size out1 =
           (out_get_buffer_size pf h out * 3 * 2) mod 2 ^ size_t_bits pf div 2 \<and>
         filter is_open (trace h0) =
           filter is_open (trace h) @
             [Pcm_open (out_card (adev h)) (out_device (adev h)) PCM_OUT
                (cached_output_hardware_config h)] \<and>
         filter is_realloc (trace h0) =
           filter is_realloc (trace h) @
             [Realloc (conversion_buffer out)
                ((out_get_buffer_size pf h out * 3 * 2) mod 2 ^ size_t_bits pf div 2)] \<and>
         (\<forall>h1 out' r.
            out_write pf (h, out) buf bytes = Some ((h1, out'), r) \<longrightarrow>
              out' = out1 \<and> r = to_ssize_t (size_t_bits pf) (int bytes) \<and>
              cached_output_hardware_config h1 = cached_output_hardware_config h \<and>
              filter is_open (trace h1) =
                filter is_open (trace h) @
                  [Pcm_open (out_card (adev h)) (out_device (adev h)) PCM_OUT
                     (cached_output_hardware_config h)] \<and>
              filter is_realloc (trace h1) =
                filter is_realloc (trace h) @
                  [Realloc (conversion_buffer out)
                     ((out_get_buffer_size pf h out * 3 * 2) mod 2 ^ size_t_bits pf div 2)] \<and>
              (\<forall>pf' buf' bytes' h2 out2 r2.
                 out_write pf' (h1, out1) buf' bytes' = Some ((h2, out2), r2) \<longrightarrow>
                   out2 = out1 \<and> r2 = to_ssize_t (size_t_bits pf') (int bytes') \<and>
                   cached_output_hardware_config h2 = cached_output_hardware_config h1 \<and>
                   filter is_open (trace h2) = filter is_open (trace h1) \<and>
                   filter is_realloc (trace h2) = filter is_realloc (trace h1))) \<and>
         (channels (cached_output_hardware_config h) \<noteq> 4 \<and>
          pcm_config.format (cached_output_hardware_config h) \<noteq> PCM_FORMAT_S24_3LE \<longrightarrow>
            (\<exists>h1 r. out_write pf (h, out) buf bytes = Some ((h1, out1), r))) \<and>
         (32 \<le> size_t_bits pf \<and> bytes mod 4 = 0 \<and> 6 * int bytes \<le> INT_MAX \<and>
          conversion_buffer out1 \<noteq> 0 \<and> 3 * bytes \<le> conversion_buffer_size out1 \<longrightarrow>
            (\<exists>h1 r. out_write pf (h, out) buf bytes = Some ((h1, out1), r))))"
    by (rule impI) (erule first)
  have c2: "\<not> stream_out.standby out \<longrightarrow>
      (\<forall>h1 out' r.
         out_write pf (h, out) buf bytes = Some ((h1, out'), r) \<longrightarrow>
           out' = out \<and> r = to_ssize_t (size_t_bits pf) (int bytes) \<and>
           cached_output_hardware_config h1 = cached_output_hardware_config h \<and>
           filter is_open (trace h1) = filter is_open (trace h) \<and>
           filter is_realloc (trace h1) = filter is_realloc (trace h)) \<and>
      (channels (cached_output_hardware_config h) \<noteq> 4 \<and>
       pcm_config.format (cached_output_hardware_config h) \<noteq> PCM_FORMAT_S24_3LE \<longrightarrow>
         (\<exists>h1 r. out_write pf (h, out) buf bytes = Some ((h1, out), r))) \<and>
      (32 \<le> size_t_bits pf \<and> bytes mod 4 = 0 \<and> 6 * int bytes \<le> INT_MAX \<and>
       conversion_buffer out \<noteq> 0 \<and> 3 * bytes \<le> conversion_buffer_size out \<longrightarrow>
         (\<exists>h1 r. out_write pf (h, out) buf bytes = Some ((h1, out), r)))"
    by (rule impI) (erule active)
  have c3: "\<not> stream_out.standby out \<longrightarrow>
      out_standby (h, out) =
        ((h\<lparr> trace := trace h @ [Pcm_close (stream_out.pcm out)] \<rparr>,
          out\<lparr> stream_out.pcm := None, stream_out.standby := True \<rparr>), OK)"
    by (rule impI) (erule out_standby_active)
  have c4: "stream_out.standby out \<longrightarrow> out_standby (h, out) = ((h, out), OK)"
    by (rule impI) (erule out_standby_idle)
  show ?thesis
    apply (rule conjI, rule c1)
    apply (rule conjI, rule c2)
    apply (rule conjI, rule c3)
    apply (rule conjI, rule c4)
    apply (rule conjI, rule out_standby_standby)
    apply (rule out_standby_idem)
    done
qed

theorem out_stream_lifecycle_witness:
  "(\<exists>h1 out1.
      out_write example_platform (example_hal, example_stream_out) 100 4 = Some ((h1, out1), 4) \<and>
      \<not> stream_out.standby out1 \<and> stream_out.pcm out1 = Some 7 \<and>
      conversion_buffer out1 = 4096 \<and> conversion_buffer_size out1 = 12288 \<and>
      filter is_open (trace h1) = [Pcm_open 1 0 PCM_OUT default_alsa_out_config] \<and>
      filter is_realloc (trace h1) = [Realloc 0 12288] \<and>
      (\<exists>h2. out_write example_platform (h1, out1) 100 4 = Some ((h2, out1), 4) \<and>
            filter is_open (trace h2) = [Pcm_open 1 0 PCM_OUT default_alsa_out_config] \<and>
            filter is_realloc (trace h2) = [Realloc 0 12288])) \<and>
   (\<exists>h1. out_write unplugged_platform (example_hal, example_stream_out_active) 100 4 =
           Some ((h1, example_stream_out_active), 4) \<and>
         filter is_open (trace h1) = [] \<and> filter is_realloc (trace h1) = []) \<and>
   out_standby (example_hal, example_stream_out_active) =
     ((example_hal\<lparr> trace := [Pcm_close (Some 7)] \<rparr>,
       example_stream_out_active\<lparr> stream_out.pcm := None, stream_out.standby := True \<rparr>), OK) \<and>
   out_standby (example_hal, example_stream_out) = ((example_hal, example_stream_out), OK)"
proof -
  have hal: "out_card (adev example_hal) = 1" "out_device (adev example_hal) = 0"
    "cached_output_hardware_config example_hal = default_alsa_out_config"
    "trace example_hal = []"
    by (simp_all add: example_hal_def)
  have plain: "channels default_alsa_out_config \<noteq> 4 \<and>
       pcm_config.format default_alsa_out_config \<noteq> PCM_FORMAT_S24_3LE"
    by (simp add: default_alsa_out_config_def)
  have sb: "stream_out.standby example_stream_out" "conversion_buffer example_stream_out = 0"
    by (simp_all add: example_stream_out_eq)
  have act: "\<not> stream_out.standby example_stream_out_active"
    "stream_out.pcm example_stream_out_active = Some 7"
    by (simp_all add: example_stream_out_active_def)
  have W: "size_t_bits example_platform = 64" "size_t_bits unplugged_platform = 64"
    by (simp_all add: example_platform_def unplugged_platform_def)
  have four: "to_ssize_t 64 (int 4) = 4" by (simp add: to_ssize_t_def)
  have bs: "(out_get_buffer_size example_platform example_hal example_stream_out * 3 * 2)
              mod 2 ^ 64 div 2 = 12288"
    by (simp add: out_get_buffer_size_def example_platform_def hal default_alsa_out_config_def)
  have re: "realloc example_platform 0 12288 = 4096" by (simp add: example_platform_def)
  have a: "stream_out.standby example_stream_out \<and>
    pcm_open example_platform (out_card (adev example_hal)) (out_device (adev example_hal)) PCM_OUT
      (cached_output_hardware_config example_hal) = Some 7 \<and> pcm_is_ready example_platform 7"
    using sb by (simp add: example_platform_def)
  note t1 = out_stream_lifecycle[of example_stream_out example_platform example_hal 7 100 4,
      THEN conjunct1, rule_format, OF a, unfolded bs sb hal W]
  from t1 obtain h0 out1 where
    f: "\<not> stream_out.standby out1" "stream_out.pcm out1 = Some 7"
      "conversion_buffer out1 = realloc example_platform 0 12288"
      "conversion_buffer_size out1 = 12288"
    and R: "\<forall>h1 out' r.
            out_write example_platform (example_hal, example_stream_out) 100 4 = Some ((h1, out'), r) \<longrightarrow>
              out' = out1 \<and> r = to_ssize_t 64 (int 4) \<and>
              cached_output_hardware_config h1 = default_alsa_out_config \<and>
              filter is_open (trace h1) =
                filter is_open [] @ [Pcm_open 1 0 PCM_OUT default_alsa_out_config] \<and>
              filter is_realloc (trace h1) = filter is_realloc [] @ [Realloc 0 12288] \<and>
              (\<forall>pf' buf' bytes' h2 out2 r2.
                 out_write pf' (h1, out1) buf' bytes' = Some ((h2, out2), r2) \<longrightarrow>
                   out2 = out1 \<and> r2 = to_ssize_t (size_t_bits pf') (int bytes') \<and>
                   cached_output_hardware_config h2 = cached_output_hardware_config h1 \<and>
                   filter is_open (trace h2) = filter is_open (trace h1) \<and>
                   filter is_realloc (trace h2) = filter is_realloc (trace h1))"
    and P: "channels default_alsa_out_config \<noteq> 4 \<and>
          pcm_config.format default_alsa_out_config \<noteq> PCM_FORMAT_S24_3LE \<longrightarrow>
            (\<exists>h1 r. out_write example_platform (example_hal, example_stream_out) 100 4 =
                      Some ((h1, out1), r))"
    by blast
  from P plain obtain h1 r where
    w: "out_write example_platform (example_hal, example_stream_out) 100 4 = Some ((h1, out1), r)"
    by blast
  note x = R[rule_format, OF w]
  have r: "r = 4" using x four by simp
  have cfg1: "cached_output_hardware_config h1 = default_alsa_out_config" using x by blast
  have o1: "filter is_open (trace h1) = [Pcm_open 1 0 PCM_OUT default_alsa_out_config]"
    "filter is_realloc (trace h1) = [Realloc 0 12288]"
    using x by simp_all
  have L: "\<forall>pf' buf' bytes' h2 out2 r2.
                 out_write pf' (h1, out1) buf' bytes' = Some ((h2, out2), r2) \<longrightarrow>
                   out2 = out1 \<and> r2 = to_ssize_t (size_t_bits pf') (int bytes') \<and>
                   cached_output_hardware_config h2 = cached_output_hardware_config h1 \<and>
                   filter is_open (trace h2) = filter is_open (trace h1) \<and>
                   filter is_realloc (trace h2) = filter is_realloc (trace h1)"
    using x by blast
  have plain1: "channels (cached_output_hardware_config h1) \<noteq> 4 \<and>
       pcm_config.format (cached_output_hardware_config h1) \<noteq> PCM_FORMAT_S24_3LE"
    unfolding cfg1 by (rule plain)
  note t3 = out_stream_lifecycle[of out1 example_platform h1 7 100 4,
      THEN conjunct2, THEN conjunct1, rule_format, OF f(1), THEN conjunct2, THEN conjunct1,
      rule_format, OF plain1]
  from t3 obtain h2 r2 where
    w2: "out_write example_platform (h1, out1) 100 4 = Some ((h2, out1), r2)"
    by blast
  note y = L[rule_format, OF w2]
  have r2: "r2 = 4" using y four W by simp
  have o2: "filter is_open (trace h2) = [Pcm_open 1 0 PCM_OUT default_alsa_out_config]"
    "filter is_realloc (trace h2) = [Realloc 0 12288]"
    using y o1 by simp_all
  have first: "\<exists>h1 out1.
      out_write example_platform (example_hal, example_stream_out) 100 4 = Some ((h1, out1), 4) \<and>
      \<not> stream_out.standby out1 \<and> stream_out.pcm out1 = Some 7 \<and>
      conversion_buffer out1 = 4096 \<and> conversion_buffer_size out1 = 12288 \<and>
      filter is_open (trace h1) = [Pcm_open 1 0 PCM_OUT default_alsa_out_config] \<and>
      filter is_realloc (trace h1) = [Realloc 0 12288] \<and>
      (\<exists>h2. out_write example_platform (h1, out1) 100 4 = Some ((h2, out1), 4) \<and>
            filter is_open (trace h2) = [Pcm_open 1 0 PCM_OUT default_alsa_out_config] \<and>
            filter is_realloc (trace h2) = [Realloc 0 12288])"
    apply (rule exI[of _ h1], rule exI[of _ out1])
    apply (intro conjI)
    subgoal using w r by simp
    subgoal by (rule f(1))
    subgoal by (rule f(2))
    subgoal using f(3) re by simp
    subgoal by (rule f(4))
    subgoal by (rule o1(1))
    subgoal by (rule o1(2))
    subgoal
      apply (rule exI[of _ h2])
      using w2 r2 o2 by simp
    done
  have plain0: "channels (cached_output_hardware_config example_hal) \<noteq> 4 \<and>
       pcm_config.format (cached_output_hardware_config example_hal) \<noteq> PCM_FORMAT_S24_3LE"
    unfolding hal by (rule plain)
  note t2 = out_stream_lifecycle[of example_stream_out_active unplugged_platform example_hal 7 100 4,
      THEN conjunct2, THEN conjunct1, rule_format, OF act(1)]
  from t2[THEN conjunct2, THEN conjunct1, rule_format, OF plain0] obtain h3 r3 where
    w3: "out_write unplugged_platform (example_hal, example_stream_out_active) 100 4 =
           Some ((h3, example_stream_out_active), r3)"
    by blast
  note z = t2[THEN conjunct1, rule_format, OF w3]
  have r3: "r3 = 4" using z four W by simp
  have o3: "filter is_open (trace h3) = []" "filter is_realloc (trace h3) = []"
    using z hal by simp_all
  have second: "\<exists>h1. out_write unplugged_platform (example_hal, example_stream_out_active) 100 4 =
           Some ((h1, example_stream_out_active), 4) \<and>
         filter is_open (trace h1) = [] \<and> filter is_realloc (trace h1) = []"
    apply (rule exI[of _ h3])
    using w3 r3 o3 by simp
  note t4 = out_stream_lifecycle[of example_stream_out_active unplugged_platform example_hal 7 100 4,
      THEN conjunct2, THEN conjunct2, THEN conjunct1, rule_format, OF act(1)]
  have third: "out_standby (example_hal, example_stream_out_active) =
     ((example_hal\<lparr> trace := [Pcm_close (Some 7)] \<rparr>,
       example_stream_out_active\<lparr> stream_out.pcm := None, stream_out.standby := True \<rparr>), OK)"
    using t4 by (simp add: hal act)
  note t5 = out_stream_lifecycle[of example_stream_out example_platform example_hal 7 100 4,
      THEN conjunct2, THEN conjunct2, THEN conjunct2, THEN conjunct1, rule_format, OF sb(1)]
  show ?thesis
    apply (rule conjI, rule first)
    apply (rule conjI, rule second)
    apply (rule conjI, rule third)
    apply (rule t5)
    done
qed

subsection \<open>Writing to a 4-channel packed 24-bit device\<close>









end
